theory Spec2Isabelle
  imports Complex_Main "HOL-Library.Word"
begin

section \<open>Arrays and frames\<close>

text \<open>
  Exceptions of the Python source that the model keeps as values.
\<close>

datatype pyerror =
  ValueError | RuntimeError | AttributeError | TypeError | IndexError | ImageFileError

text \<open>
  A two-dimensional numpy array: its shape and its cells in row-major order.
  pydicom decodes the pixel data of a Segmentation object (1 or 8 bits allocated)
  to \<open>uint8\<close>, so a label cell is an 8-bit word and \<open>+\<close> wraps as numpy's does.
\<close>

datatype 'a ndarray = NDArray (nrows: nat) (ncols: nat) (cells: "'a list")

type_synonym pixel = "8 word"

definition shape :: "'a ndarray \<Rightarrow> nat \<times> nat" where
  "shape a = (nrows a, ncols a)"

definition np_zeros :: "nat \<times> nat \<Rightarrow> 'a::zero ndarray" where
  "np_zeros s = NDArray (fst s) (snd s) (replicate (fst s * snd s) 0)"

text \<open>
  numpy broadcasts the right operand of \<open>a += b\<close> to the shape of \<open>a\<close>: an axis of
  length one is repeated, any other difference raises ValueError.
\<close>

definition broadcastable :: "'a ndarray \<Rightarrow> nat \<times> nat \<Rightarrow> bool" where
  "broadcastable b s \<longleftrightarrow>
     (nrows b = fst s \<or> nrows b = 1) \<and> (ncols b = snd s \<or> ncols b = 1)"

definition broadcast_cells :: "'a ndarray \<Rightarrow> nat \<times> nat \<Rightarrow> 'a list" where
  "broadcast_cells b s =
     map (\<lambda>k. cells b ! ((if nrows b = 1 then 0 else k div snd s) * ncols b
                          + (if ncols b = 1 then 0 else k mod snd s)))
         [0 ..< fst s * snd s]"

definition np_iadd :: "pixel ndarray \<Rightarrow> pixel ndarray \<Rightarrow> pyerror + pixel ndarray" where
  "np_iadd a b =
     (if broadcastable b (shape a)
      then Inr (NDArray (nrows a) (ncols a)
                  (map (\<lambda>(x, y). x + y) (zip (cells a) (broadcast_cells b (shape a)))))
      else Inl ValueError)"

definition clip01 :: "pixel \<Rightarrow> pixel" where
  "clip01 x = min (max x 0) 1"

definition np_clip01 :: "pixel ndarray \<Rightarrow> pixel ndarray" where
  "np_clip01 a = NDArray (nrows a) (ncols a) (map clip01 (cells a))"

definition np_any :: "pixel ndarray \<Rightarrow> bool" where
  "np_any a \<longleftrightarrow> (\<exists>x \<in> set (cells a). x \<noteq> 0)"

text \<open>
  One entry of the \<open>frames\<close> list of a decoded segmentation. A key that is missing and
  a key that holds \<open>None\<close> read the same through \<open>dict.get\<close>, so both are \<open>None\<close>
  here. Position components are decimal strings of the file read as numbers; the
  code only compares them.
\<close>

record frame =
  frame_index :: nat
  segment_number :: "nat option"
  segment_name :: "string option"
  segment_color :: "int list option"
  image_position_patient :: "rat list option"
  ref_sop_uid :: "string option"
  pixel_data :: "pixel ndarray option"

section \<open>Merging objects (ConcatMultiplObjects.main)\<close>

record merge_item =
  old_objects :: "string list"
  new_object :: "string option"

type_synonym slice_key = "string \<times> rat list option"

text \<open>
  \<open>slice_map\<close> is a dict; its iteration order is insertion order, kept here by an
  association list with one entry per key.
\<close>

type_synonym slice_map = "(slice_key \<times> pixel ndarray) list"

text \<open>\<open>tuple(ipp) if ipp else None\<close>: an empty position is falsy.\<close>

definition ipp_key :: "rat list option \<Rightarrow> rat list option" where
  "ipp_key ipp = (case ipp of None \<Rightarrow> None | Some [] \<Rightarrow> None | Some (x # xs) \<Rightarrow> Some (x # xs))"

text \<open>
  \<open>if key not in slice_map: slice_map[key] = np.zeros(...)\<close> followed by
  \<open>slice_map[key] += px_data\<close>.
\<close>

fun slice_map_add :: "slice_key \<Rightarrow> pixel ndarray \<Rightarrow> slice_map \<Rightarrow> pyerror + slice_map" where
  "slice_map_add k px [] =
     (case np_iadd (np_zeros (shape px)) px of
        Inl e \<Rightarrow> Inl e
      | Inr a \<Rightarrow> Inr [(k, a)])"
| "slice_map_add k px ((k', a) # rest) =
     (if k = k'
      then (case np_iadd a px of Inl e \<Rightarrow> Inl e | Inr a' \<Rightarrow> Inr ((k', a') # rest))
      else (case slice_map_add k px rest of
              Inl e \<Rightarrow> Inl e
            | Inr rest' \<Rightarrow> Inr ((k', a) # rest')))"

text \<open>The loop \<open>for fr in frames\<close> that fills \<open>slice_map\<close>.\<close>

fun accumulate :: "string list \<Rightarrow> frame list \<Rightarrow> slice_map \<Rightarrow> pyerror + slice_map" where
  "accumulate old [] sm = Inr sm"
| "accumulate old (fr # frs) sm =
     (case segment_name fr of
        None \<Rightarrow> accumulate old frs sm
      | Some nm \<Rightarrow>
          if nm \<notin> set old then accumulate old frs sm
          else (case pixel_data fr of
                  None \<Rightarrow> accumulate old frs sm
                | Some px \<Rightarrow>
                    (case ref_sop_uid fr of
                       None \<Rightarrow> accumulate old frs sm
                     | Some uid \<Rightarrow>
                         (case slice_map_add (uid, ipp_key (image_position_patient fr)) px sm of
                            Inl e \<Rightarrow> Inl e
                          | Inr sm' \<Rightarrow> accumulate old frs sm'))))"

definition clip_all :: "slice_map \<Rightarrow> slice_map" where
  "clip_all sm = map (\<lambda>(k, a). (k, np_clip01 a)) sm"

text \<open>
  The loop that builds \<open>new_frames\<close>; the first argument is \<open>start_index + i\<close>.
\<close>

fun build_new_frames :: "nat \<Rightarrow> nat \<Rightarrow> string \<Rightarrow> slice_map \<Rightarrow> frame list" where
  "build_new_frames idx n nm [] = []"
| "build_new_frames idx n nm (((uid, ipp), sum_mask) # rest) =
     (if \<not> np_any sum_mask then build_new_frames idx n nm rest
      else \<lparr>frame_index = idx, segment_number = Some n, segment_name = Some nm,
             segment_color = None, image_position_patient = ipp,
             ref_sop_uid = Some uid, pixel_data = Some sum_mask\<rparr>
           # build_new_frames (Suc idx) n nm rest)"

text \<open>
  What the script prints for one directive: an invalid entry, a merge that produced
  no frames, or a merge with its new segment number and the frames it added.
\<close>

datatype merge_event =
    InvalidEntry
  | NoFrames nat
  | Merged nat "frame list"

text \<open>The pickled dictionary, as far as the merge reads and writes it.\<close>

record seg_data =
  frames :: "frame list"
  num_frames :: nat

definition existing_seg_numbers :: "frame list \<Rightarrow> nat list" where
  "existing_seg_numbers frs = List.map_filter segment_number frs"

definition initial_max_seg_num :: "frame list \<Rightarrow> nat" where
  "initial_max_seg_num frs =
     (let xs = existing_seg_numbers frs in if xs = [] then 0 else Max (set xs))"

text \<open>
  The body of \<open>for merge_item in merges_for_this_seg\<close>. The state is the pickled
  dictionary and the counter \<open>max_seg_num\<close>; the counter is increased before the
  new frames are built, also when none comes out.
\<close>

definition merge_one ::
  "merge_item \<Rightarrow> seg_data \<times> nat \<Rightarrow> pyerror + ((seg_data \<times> nat) \<times> merge_event)" where
  "merge_one item st =
     (let (sd, max_seg_num) = st in
      case new_object item of
        None \<Rightarrow> Inr (st, InvalidEntry)
      | Some new_name \<Rightarrow>
          if old_objects item = [] \<or> new_name = [] then Inr (st, InvalidEntry)
          else (case accumulate (old_objects item) (frames sd) [] of
                  Inl e \<Rightarrow> Inl e
                | Inr sm \<Rightarrow>
                    (let new_seg_num = max_seg_num + 1;
                         new_frames = build_new_frames (length (frames sd)) new_seg_num
                                        new_name (clip_all sm)
                     in if new_frames = [] then Inr ((sd, new_seg_num), NoFrames new_seg_num)
                        else Inr ((\<lparr>frames = frames sd @ new_frames,
                                     num_frames = length (frames sd @ new_frames)\<rparr>,
                                   new_seg_num),
                                  Merged new_seg_num new_frames))))"

fun merge_loop ::
  "merge_item list \<Rightarrow> seg_data \<times> nat \<Rightarrow> pyerror + ((seg_data \<times> nat) \<times> merge_event list)" where
  "merge_loop [] st = Inr (st, [])"
| "merge_loop (item # items) st =
     (case merge_one item st of
        Inl e \<Rightarrow> Inl e
      | Inr (st', ev) \<Rightarrow>
          (case merge_loop items st' of
             Inl e \<Rightarrow> Inl e
           | Inr (st'', evs) \<Rightarrow> Inr (st'', ev # evs)))"

text \<open>
  One segmentation of the plan: the counter starts at the largest segment number of
  the loaded frames, or 0 when there is none, and the directives run in order.
\<close>

definition merge_segmentation ::
  "merge_item list \<Rightarrow> seg_data \<Rightarrow> pyerror + (seg_data \<times> merge_event list)" where
  "merge_segmentation items sd =
     (case merge_loop items (sd, initial_max_seg_num (frames sd)) of
        Inl e \<Rightarrow> Inl e
      | Inr ((sd', m), evs) \<Rightarrow> Inr (sd', evs))"


text \<open>
  What is pickled back: an exception inside the loop ends the script before
  \<open>pickle.dump\<close>, so the file keeps what it held.
\<close>

definition pickle_after_merge :: "merge_item list \<Rightarrow> seg_data \<Rightarrow> seg_data" where
  "pickle_after_merge items sd =
     (case merge_segmentation items sd of Inl e \<Rightarrow> sd | Inr (sd', evs) \<Rightarrow> sd')"

text \<open>Reading the printed events: the frames a directive added, the number it took.\<close>

fun emitted :: "merge_event \<Rightarrow> frame list" where
  "emitted InvalidEntry = []"
| "emitted (NoFrames n) = []"
| "emitted (Merged n new) = new"

fun assigned :: "merge_event \<Rightarrow> nat option" where
  "assigned InvalidEntry = None"
| "assigned (NoFrames n) = Some n"
| "assigned (Merged n new) = Some n"

text \<open>Properties of frames and of the counter that the proofs below speak about.\<close>

definition binary_frame :: "frame \<Rightarrow> bool" where
  "binary_frame f \<longleftrightarrow>
     (case pixel_data f of None \<Rightarrow> False | Some a \<Rightarrow> \<forall>x \<in> set (cells a). x = 0 \<or> x = 1)"

definition seg_bound :: "frame list \<Rightarrow> nat \<Rightarrow> bool" where
  "seg_bound frs m \<longleftrightarrow> (\<forall>x \<in> set (existing_seg_numbers frs). x \<le> m)"

section \<open>Decoding a segmentation (Step_2_3_DecodeSegmentation.decode_segmentation_dcm)\<close>

text \<open>
  The parsed file, as pydicom hands it over. An attribute that the file lacks is
  \<open>None\<close>; a sequence is the list of its items, and an item is kept as the one
  attribute that the code reads from it.
\<close>

record segment_item =
  SegmentNumber :: "nat option"
  SegmentLabel :: "string option"
  RecommendedDisplayCIELabValue :: "int list option"

record frame_item =
  SegmentIdentificationSequence :: "nat option list option"
  DerivationImageSequence :: "string option list option list option"
  PlanePositionSequence :: "rat list option list option"

text \<open>
  One record serves for a segmentation file and for an image slice, as one class
  does in pydicom. \<open>'r\<close> is the type of the decimal values, \<open>'p\<close> what
  \<open>pixel_array\<close> returns (\<open>None\<close>: reading it raises).
\<close>

record ('r, 'p) dataset =
  InstanceNumber :: "int option"
  SOPInstanceUID :: "string option"
  Rows :: "nat option"
  Columns :: "nat option"
  PixelSpacing :: "('r \<times> 'r) option"
  SliceThickness :: "'r option"
  ImageOrientationPatient :: "(('r \<times> 'r \<times> 'r) \<times> ('r \<times> 'r \<times> 'r)) option"
  ImagePositionPatient :: "('r \<times> 'r \<times> 'r) option"
  NumberOfFrames :: "int option"
  SegmentSequence :: "segment_item list option"
  PerFrameFunctionalGroupsSequence :: "frame_item list option"
  pixel_array :: "'p option"

text \<open>\<open>f"Label_{seg_num}"\<close> prints the number in decimal.\<close>

fun str_of_nat :: "nat \<Rightarrow> string" where
  "str_of_nat n =
     (if n < 10 then [char_of (48 + n)]
      else str_of_nat (n div 10) @ [char_of (48 + n mod 10)])"

declare str_of_nat.simps [simp del]

type_synonym segment_map = "nat \<rightharpoonup> string \<times> int list option"

text \<open>The loop over \<open>ds.SegmentSequence\<close>; \<open>if seg_num\<close> leaves out 0 as well.\<close>

fun build_segment_map :: "segment_item list \<Rightarrow> segment_map \<Rightarrow> segment_map" where
  "build_segment_map [] m = m"
| "build_segment_map (seg_item # rest) m =
     (case SegmentNumber seg_item of
        None \<Rightarrow> build_segment_map rest m
      | Some seg_num \<Rightarrow>
          if seg_num = 0 then build_segment_map rest m
          else build_segment_map rest
                 (m(seg_num \<mapsto>
                    ((case SegmentLabel seg_item of
                        None \<Rightarrow> ''Label_'' @ str_of_nat seg_num
                      | Some seg_label \<Rightarrow>
                          if seg_label = [] then ''Label_'' @ str_of_nat seg_num
                          else seg_label),
                     RecommendedDisplayCIELabValue seg_item))))"

text \<open>\<open>hasattr(x, "S") and len(x.S) > 0\<close>, then \<open>x.S[0]\<close>.\<close>

definition first_item :: "'a list option \<Rightarrow> 'a option" where
  "first_item s = (case s of None \<Rightarrow> None | Some [] \<Rightarrow> None | Some (x # xs) \<Rightarrow> Some x)"

text \<open>
  What \<open>pixel_array\<close> returns for a segmentation. The source expects shape
  (num_frames, rows, cols); pydicom gives that for a file of several frames, and an
  array of shape (rows, cols) for a file of one frame or without NumberOfFrames.
\<close>

datatype pixels = Array2D "pixel ndarray" | Array3D "pixel ndarray list"

text \<open>\<open>pixel_array_3d.shape[0]\<close>\<close>

definition shape0 :: "pixels \<Rightarrow> nat" where
  "shape0 arr = (case arr of Array2D a \<Rightarrow> nrows a | Array3D planes \<Rightarrow> length planes)"

text \<open>
  \<open>pixel_array_3d[frame_index, :, :]\<close>: three indices into a two-dimensional array
  raise IndexError, and so does an index beyond the first axis.
\<close>

definition plane :: "pixels \<Rightarrow> nat \<Rightarrow> pyerror + pixel ndarray" where
  "plane arr i =
     (case arr of
        Array2D a \<Rightarrow> Inl IndexError
      | Array3D planes \<Rightarrow> if i < length planes then Inr (planes ! i) else Inl IndexError)"

text \<open>
  The body of the loop over \<open>range(num_frames)\<close> in the branch with per-frame
  metadata. Beyond the first axis of the pixel array the frame gets
  \<open>np.zeros((rows, columns))\<close>, which raises TypeError when the file has no Rows or
  Columns.
\<close>

definition decode_frame ::
  "segment_map \<Rightarrow> nat option \<Rightarrow> nat option \<Rightarrow> pixels \<Rightarrow> nat \<Rightarrow> frame_item
     \<Rightarrow> pyerror + frame" where
  "decode_frame segment_map rows columns pixel_array_3d i fi =
     (let segment_number =
            (case first_item (SegmentIdentificationSequence fi) of
               None \<Rightarrow> None | Some referenced \<Rightarrow> referenced);
          entry =
            (case segment_number of
               None \<Rightarrow> None
             | Some n \<Rightarrow> if n = 0 then None else segment_map n);
          seg_name = (case entry of None \<Rightarrow> None | Some e \<Rightarrow> Some (fst e));
          seg_color = (case entry of None \<Rightarrow> None | Some e \<Rightarrow> snd e);
          ref_sop_uid_this_frame =
            (case first_item (DerivationImageSequence fi) of
               None \<Rightarrow> None
             | Some source \<Rightarrow> (case first_item source of None \<Rightarrow> None | Some uid \<Rightarrow> uid));
          position =
            (case first_item (PlanePositionSequence fi) of None \<Rightarrow> None | Some p \<Rightarrow> p)
      in if i < shape0 pixel_array_3d
         then (case plane pixel_array_3d i of
                 Inl e \<Rightarrow> Inl e
               | Inr frame_pixel_data \<Rightarrow>
                   Inr \<lparr>frame_index = i, segment_number = segment_number,
                         segment_name = seg_name, segment_color = seg_color,
                         image_position_patient = position,
                         ref_sop_uid = ref_sop_uid_this_frame,
                         pixel_data = Some frame_pixel_data\<rparr>)
         else (case rows of
                 None \<Rightarrow> Inl TypeError
               | Some r \<Rightarrow>
                   (case columns of
                      None \<Rightarrow> Inl TypeError
                    | Some c \<Rightarrow>
                        Inr \<lparr>frame_index = i, segment_number = segment_number,
                              segment_name = seg_name, segment_color = seg_color,
                              image_position_patient = position,
                              ref_sop_uid = ref_sop_uid_this_frame,
                              pixel_data = Some (np_zeros (r, c))\<rparr>)))"

fun decode_frames ::
  "segment_map \<Rightarrow> nat option \<Rightarrow> nat option \<Rightarrow> pixels \<Rightarrow> nat \<Rightarrow> frame_item list
     \<Rightarrow> pyerror + frame list" where
  "decode_frames sm rows columns arr i [] = Inr []"
| "decode_frames sm rows columns arr i (fi # fis) =
     (case decode_frame sm rows columns arr i fi of
        Inl e \<Rightarrow> Inl e
      | Inr fr \<Rightarrow>
          (case decode_frames sm rows columns arr (Suc i) fis of
             Inl e \<Rightarrow> Inl e
           | Inr frs \<Rightarrow> Inr (fr # frs)))"

text \<open>
  The fallback branch: \<open>num_frames = pixel_array_3d.shape[0]\<close>, and one frame per
  index below it, with nothing but index and pixels.
\<close>

fun fallback_loop :: "pixels \<Rightarrow> nat list \<Rightarrow> pyerror + frame list" where
  "fallback_loop arr [] = Inr []"
| "fallback_loop arr (i # rest) =
     (case plane arr i of
        Inl e \<Rightarrow> Inl e
      | Inr p \<Rightarrow>
          (case fallback_loop arr rest of
             Inl e \<Rightarrow> Inl e
           | Inr frs \<Rightarrow>
               Inr (\<lparr>frame_index = i, segment_number = None, segment_name = None,
                       segment_color = None, image_position_patient = None,
                       ref_sop_uid = None, pixel_data = Some p\<rparr> # frs)))"

definition fallback_result :: "pixels \<Rightarrow> pyerror + seg_data" where
  "fallback_result pixel_array_3d =
     (case fallback_loop pixel_array_3d [0 ..< shape0 pixel_array_3d] of
        Inl e \<Rightarrow> Inl e
      | Inr frs \<Rightarrow> Inr \<lparr>frames = frs, num_frames = length frs\<rparr>)"

definition declared_num_frames :: "('r, 'p) dataset \<Rightarrow> int" where
  "declared_num_frames ds = (case NumberOfFrames ds of None \<Rightarrow> 0 | Some n \<Rightarrow> n)"

text \<open>
  The test of the \<open>if\<close>: the per-frame block is there and has as many items as the
  file declares frames.
\<close>

definition per_frame_well_formed :: "('r, 'p) dataset \<Rightarrow> bool" where
  "per_frame_well_formed ds =
     (case PerFrameFunctionalGroupsSequence ds of
        None \<Rightarrow> False
      | Some per_frame \<Rightarrow> int (length per_frame) = declared_num_frames ds)"

text \<open>
  The frames and the frame count of the dictionary that the decoder returns; its
  other entries are header values that no frame depends on.
\<close>

definition decode_segmentation_dcm :: "('r, pixels) dataset \<Rightarrow> pyerror + seg_data" where
  "decode_segmentation_dcm ds =
     (let segment_map =
            (case SegmentSequence ds of
               None \<Rightarrow> Map.empty
             | Some segs \<Rightarrow> build_segment_map segs Map.empty)
      in case pixel_array ds of
           None \<Rightarrow> Inl AttributeError
         | Some pixel_array_3d \<Rightarrow>
             (case PerFrameFunctionalGroupsSequence ds of
                None \<Rightarrow> fallback_result pixel_array_3d
              | Some per_frame \<Rightarrow>
                  if int (length per_frame) = declared_num_frames ds
                  then (case decode_frames segment_map (Rows ds) (Columns ds)
                               pixel_array_3d 0 per_frame of
                          Inl e \<Rightarrow> Inl e
                        | Inr frs \<Rightarrow> Inr \<lparr>frames = frs, num_frames = length frs\<rparr>)
                  else fallback_result pixel_array_3d))"

section \<open>Resolving the reference series (step_2_4_1_create_ready2nifti)\<close>

text \<open>
  A key of a JSON object is missing, holds \<open>null\<close>, or holds a value. The steps
  after this one tell the first two apart.
\<close>

datatype 'a json_key = Missing | Null | Value 'a

text \<open>
  One entry of the series catalog, with the four keys that the resolver copies;
  each may hold \<open>null\<close>.
\<close>

record series_entry =
  series_folder_path :: "string option"
  series_number :: "string option"
  series_uid :: "string option"
  series_description :: "string option"

text \<open>The record of one selected segmentation, as far as step 2.4 reads it.\<close>

record seg_info =
  ref_series_uid :: "string option"
  pkl_file :: "string option"
  series_info :: "series_entry json_key"

text \<open>
  The inner loop with its \<open>break\<close>. The catalog is a JSON object; its items come in
  the order of the file.
\<close>

fun find_series :: "string \<Rightarrow> (string \<times> series_entry) list \<Rightarrow> (string \<times> series_entry) option" where
  "find_series ref_uid [] = None"
| "find_series ref_uid ((series_key, entry) # rest) =
     (if series_uid entry = Some ref_uid then Some (series_key, entry)
      else find_series ref_uid rest)"

text \<open>
  The body of the outer loop. \<open>if not ref_uid: continue\<close> leaves a record without
  identity, or with an empty one, as it is.
\<close>

definition resolve_one :: "(string \<times> series_entry) list \<Rightarrow> seg_info \<Rightarrow> seg_info" where
  "resolve_one study_series_data seg =
     (case ref_series_uid seg of
        None \<Rightarrow> seg
      | Some ref_uid \<Rightarrow>
          if ref_uid = [] then seg
          else (case find_series ref_uid study_series_data of
                  Some (series_key, entry) \<Rightarrow> seg\<lparr>series_info := Value entry\<rparr>
                | None \<Rightarrow> seg\<lparr>series_info := Null\<rparr>))"

definition step_2_4_1_create_ready2nifti ::
  "(string \<times> seg_info) list \<Rightarrow> (string \<times> series_entry) list \<Rightarrow> (string \<times> seg_info) list" where
  "step_2_4_1_create_ready2nifti seg_dict study_series_data =
     map (\<lambda>(seg_folder_name, seg). (seg_folder_name, resolve_one study_series_data seg)) seg_dict"

section \<open>Loading a reference series (Step_2_4_NiftiGeneration)\<close>

text \<open>
  A three-dimensional array of shape (rows, cols, n): its shape and its n planes
  \<open>a[:, :, k]\<close>. Stored CT and MR values have 16 bits, and the intensity volume is
  \<open>int16\<close>, so an intensity is a 16-bit word.
\<close>

type_synonym intensity = "16 word"

record 'a volume =
  vshape :: "nat \<times> nat \<times> nat"
  vplanes :: "'a ndarray list"

definition np_zeros3 :: "nat \<times> nat \<times> nat \<Rightarrow> 'a::zero volume" where
  "np_zeros3 s =
     (case s of (rows, cols, n) \<Rightarrow>
        \<lparr>vshape = s, vplanes = replicate n (np_zeros (rows, cols))\<rparr>)"


text \<open>\<open>getattr(ds, "InstanceNumber", 0)\<close>, the key of the stable sort.\<close>

definition instance_key :: "('r, 'p) dataset \<Rightarrow> int" where
  "instance_key ds = (case InstanceNumber ds of None \<Rightarrow> 0 | Some n \<Rightarrow> n)"

definition np_cross :: "'r \<times> 'r \<times> 'r \<Rightarrow> 'r \<times> 'r \<times> 'r \<Rightarrow> ('r::{times,minus}) \<times> 'r \<times> 'r" where
  "np_cross a b =
     (case a of (a0, a1, a2) \<Rightarrow> case b of (b0, b1, b2) \<Rightarrow>
        (a1 * b2 - a2 * b1, a2 * b0 - a0 * b2, a0 * b1 - a1 * b0))"

text \<open>
  \<open>volume_3d[:, :, idx] = arr\<close>: the slice's array is broadcast to (rows, cols), or
  the assignment raises ValueError; a slice without pixel data raises when
  \<open>pixel_array\<close> is read.
\<close>

fun fill_volume ::
  "('r, intensity ndarray) dataset list \<Rightarrow> nat \<Rightarrow> intensity volume \<Rightarrow> pyerror + intensity volume" where
  "fill_volume [] idx volume_3d = Inr volume_3d"
| "fill_volume (ds # rest) idx volume_3d =
     (case pixel_array ds of
        None \<Rightarrow> Inl AttributeError
      | Some arr \<Rightarrow>
          (case vshape volume_3d of (rows, cols, n) \<Rightarrow>
             if broadcastable arr (rows, cols)
             then fill_volume rest (Suc idx)
                    (volume_3d\<lparr>vplanes := (vplanes volume_3d)
                        [idx := NDArray rows cols (broadcast_cells arr (rows, cols))]\<rparr>)
             else Inl ValueError))"

text \<open>
  \<open>load_dicom_series\<close>. The argument is the list of the datasets of the folder's
  \<open>*.dcm\<close> files in the order of their sorted names. Decimal values are floats
  already (pydicom's DSfloat), so \<open>float(x)\<close> changes nothing; the arithmetic of
  \<open>'r\<close> is left open, and no law of it is used.
\<close>

definition load_dicom_series ::
  "('r::{zero,one,times,minus}, intensity ndarray) dataset list
     \<Rightarrow> pyerror + (intensity volume \<times> 'r list list \<times> (nat \<times> nat \<times> nat))" where
  "load_dicom_series dcm_files =
     (case sort_key instance_key dcm_files of
        [] \<Rightarrow> Inl RuntimeError
      | sample_ds # others \<Rightarrow>
          (case Rows sample_ds of
             None \<Rightarrow> Inl AttributeError
           | Some rows \<Rightarrow>
          (case Columns sample_ds of
             None \<Rightarrow> Inl AttributeError
           | Some cols \<Rightarrow>
               (let slices = sample_ds # others;
                    px_spacing = (case PixelSpacing sample_ds of None \<Rightarrow> (1, 1) | Some p \<Rightarrow> p);
                    slice_thick = (case SliceThickness sample_ds of None \<Rightarrow> 1 | Some t \<Rightarrow> t);
                    iop = (case ImageOrientationPatient sample_ds of
                             None \<Rightarrow> ((1, 0, 0), (0, 1, 0)) | Some v \<Rightarrow> v);
                    n_slices = length slices
                in case fill_volume slices 0 (np_zeros3 (rows, cols, n_slices)) of
                     Inl e \<Rightarrow> Inl e
                   | Inr volume_3d \<Rightarrow>
                       (let row_cos = fst iop;
                            col_cos = snd iop;
                            slice_cos = np_cross row_cos col_cos;
                            spacing = (fst px_spacing, snd px_spacing, slice_thick);
                            translation =
                              (case ImagePositionPatient sample_ds of
                                 None \<Rightarrow> (0, 0, 0) | Some ipp \<Rightarrow> ipp)
                        in case row_cos of (r0, r1, r2) \<Rightarrow>
                           case col_cos of (c0, c1, c2) \<Rightarrow>
                           case slice_cos of (n0, n1, n2) \<Rightarrow>
                           case spacing of (s0, s1, s2) \<Rightarrow>
                           case translation of (t0, t1, t2) \<Rightarrow>
                             Inr (volume_3d,
                                  [[r0 * s0, c0 * s1, n0 * s2, t0],
                                   [r1 * s0, c1 * s1, n1 * s2, t1],
                                   [r2 * s0, c2 * s1, n2 * s2, t2],
                                   [0, 0, 0, 1]],
                                  (rows, cols, n_slices)))))))"

text \<open>
  \<open>load_sop_uid_order\<close>, the loader inside step 2.4.3: the same folder listing, the
  identifiers of the sorted slices, the shape and the affine. The pixel array of the
  first slice is read for its dtype only.
\<close>

definition load_sop_uid_order ::
  "('r::{zero,one,times,minus}, intensity ndarray) dataset list
     \<Rightarrow> pyerror + (string option list \<times> (nat \<times> nat \<times> nat) \<times> 'r list list)" where
  "load_sop_uid_order dcm_files =
     (if dcm_files = [] then Inl RuntimeError
      else case sort_key instance_key dcm_files of
        [] \<Rightarrow> Inl RuntimeError
      | first # others \<Rightarrow>
          (let slices = first # others in
           case Rows first of
             None \<Rightarrow> Inl AttributeError
           | Some rows \<Rightarrow>
          (case Columns first of
             None \<Rightarrow> Inl AttributeError
           | Some cols \<Rightarrow>
               (let px_spacing = (case PixelSpacing first of None \<Rightarrow> (1, 1) | Some p \<Rightarrow> p);
                    slice_thick = (case SliceThickness first of None \<Rightarrow> 1 | Some t \<Rightarrow> t);
                    iop = (case ImageOrientationPatient first of
                             None \<Rightarrow> ((1, 0, 0), (0, 1, 0)) | Some v \<Rightarrow> v);
                    row_cos = fst iop;
                    col_cos = snd iop;
                    slice_cos = np_cross row_cos col_cos;
                    spacing = (fst px_spacing, snd px_spacing, slice_thick);
                    translation =
                      (case ImagePositionPatient first of None \<Rightarrow> (0, 0, 0) | Some ipp \<Rightarrow> ipp);
                    aff =
                      (case row_cos of (r0, r1, r2) \<Rightarrow>
                       case col_cos of (c0, c1, c2) \<Rightarrow>
                       case slice_cos of (n0, n1, n2) \<Rightarrow>
                       case spacing of (s0, s1, s2) \<Rightarrow>
                       case translation of (t0, t1, t2) \<Rightarrow>
                         [[r0 * s0, c0 * s1, n0 * s2, t0],
                          [r1 * s0, c1 * s1, n1 * s2, t1],
                          [r2 * s0, c2 * s1, n2 * s2, t2],
                          [0, 0, 0, 1]]);
                    sop_list = map SOPInstanceUID slices
                in case pixel_array first of
                     None \<Rightarrow> Inl AttributeError
                   | Some test_arr \<Rightarrow> Inr (sop_list, (rows, cols, length slices), aff)))))"

section \<open>Building the label volumes (step_2_4_3_create_seg_nifti)\<close>

text \<open>
  \<open>sop_uid_to_index\<close>: the loop over \<open>enumerate(sop_uid_list)\<close>. A slice without
  identifier is in the list as \<open>None\<close>, and \<open>None\<close> is a key like any other.
\<close>

fun sop_uid_to_index ::
  "nat \<Rightarrow> string option list \<Rightarrow> (string option \<rightharpoonup> nat) \<Rightarrow> (string option \<rightharpoonup> nat)" where
  "sop_uid_to_index i [] m = m"
| "sop_uid_to_index i (suid # rest) m = sop_uid_to_index (Suc i) rest (m(suid \<mapsto> i))"

text \<open>
  \<open>segment_frames_map\<close>, a defaultdict of lists, in the order in which its keys
  came. In the frames that the decoder and the merge write, the key
  \<open>segment_name\<close> is always there, so the default \<open>"UnknownSEG"\<close> is never taken and
  the name may be \<open>None\<close>.
\<close>

type_synonym segment_frames_map = "(string option \<times> (nat \<times> pixel ndarray) list) list"

fun group_append ::
  "string option \<Rightarrow> nat \<times> pixel ndarray \<Rightarrow> segment_frames_map \<Rightarrow> segment_frames_map" where
  "group_append seg_name x [] = [(seg_name, [x])]"
| "group_append seg_name x ((k, xs) # rest) =
     (if k = seg_name then (k, xs @ [x]) # rest
      else (k, xs) # group_append seg_name x rest)"

fun group_frames ::
  "(string option \<rightharpoonup> nat) \<Rightarrow> frame list \<Rightarrow> segment_frames_map \<Rightarrow> segment_frames_map" where
  "group_frames idx [] g = g"
| "group_frames idx (fr # frs) g =
     (case idx (ref_sop_uid fr) of
        None \<Rightarrow> group_frames idx frs g
      | Some slice_index \<Rightarrow>
          (case pixel_data fr of
             None \<Rightarrow> group_frames idx frs g
           | Some frame_2d \<Rightarrow>
               group_frames idx frs
                 (group_append (segment_name fr) (slice_index, frame_2d) g)))"

text \<open>The shape test of the placement loop.\<close>

definition fits :: "nat \<times> nat \<times> nat \<Rightarrow> 'a ndarray \<Rightarrow> bool" where
  "fits shape3 mask_2d \<longleftrightarrow>
     (case shape3 of (rows, cols, n) \<Rightarrow> nrows mask_2d = rows \<and> ncols mask_2d = cols)"

text \<open>
  The placement loop. The state is \<open>mask_3d\<close> and the slice indices of the warnings
  printed so far.
\<close>

fun place_slices ::
  "nat \<times> nat \<times> nat \<Rightarrow> (nat \<times> pixel ndarray) list \<Rightarrow> pixel volume \<times> nat list
     \<Rightarrow> pixel volume \<times> nat list" where
  "place_slices shape3 [] st = st"
| "place_slices shape3 ((slice_idx, mask_2d) # rest) (mask_3d, warned) =
     (if fits shape3 mask_2d
      then place_slices shape3 rest
             (mask_3d\<lparr>vplanes := (vplanes mask_3d)[slice_idx := mask_2d]\<rparr>, warned)
      else place_slices shape3 rest (mask_3d, warned @ [slice_idx]))"

definition build_mask ::
  "nat \<times> nat \<times> nat \<Rightarrow> (nat \<times> pixel ndarray) list \<Rightarrow> pixel volume \<times> nat list" where
  "build_mask shape3 slices_info = place_slices shape3 slices_info (np_zeros3 shape3, [])"

text \<open>\<open>None\<close> prints as \<open>None\<close> in an f-string.\<close>

definition fmt :: "string option \<Rightarrow> string" where
  "fmt s = (case s of None \<Rightarrow> ''None'' | Some x \<Rightarrow> x)"

definition seg_nii_name :: "string \<Rightarrow> string option \<Rightarrow> string \<Rightarrow> string" where
  "seg_nii_name series_no seg_name seg_folder_name =
     series_no @ ''_ON_'' @ fmt seg_name @ ''__FN_'' @ seg_folder_name @ ''.nii''"

text \<open>
  For one segmentation and the cached data of its series: the file name, the mask,
  the affine and the warnings of every segment name, in the order of the groups.
\<close>

definition seg_outputs ::
  "string \<Rightarrow> string \<Rightarrow> frame list \<Rightarrow> string option list \<times> (nat \<times> nat \<times> nat) \<times> 'r list list
     \<Rightarrow> (string \<times> pixel volume \<times> 'r list list \<times> nat list) list" where
  "seg_outputs seg_folder_name series_no frs cached =
     (case cached of (sop_uid_list, shape3, aff) \<Rightarrow>
        map (\<lambda>(seg_name, slices_info).
               (seg_nii_name series_no seg_name seg_folder_name,
                fst (build_mask shape3 slices_info), aff,
                snd (build_mask shape3 slices_info)))
            (group_frames (sop_uid_to_index 0 sop_uid_list Map.empty) frs []))"

text \<open>
  In the words of the specification: the placements of one segment name are, in the
  order of the frames, the slice index and the array of every frame of that name
  whose slice identity is in the lookup and whose array is there.
\<close>

definition placements ::
  "(string option \<rightharpoonup> nat) \<Rightarrow> frame list \<Rightarrow> string option \<Rightarrow> (nat \<times> pixel ndarray) list" where
  "placements idx frs nm =
     List.map_filter
       (\<lambda>fr. if segment_name fr = nm
             then (case idx (ref_sop_uid fr) of
                     None \<Rightarrow> None
                   | Some i \<Rightarrow> (case pixel_data fr of None \<Rightarrow> None | Some m \<Rightarrow> Some (i, m)))
             else None)
       frs"

definition group_of :: "segment_frames_map \<Rightarrow> string option \<Rightarrow> (nat \<times> pixel ndarray) list" where
  "group_of g nm = (case map_of g nm of None \<Rightarrow> [] | Some xs \<Rightarrow> xs)"

section \<open>Writing the volumes (steps 2.4.2 and 2.4.3)\<close>

text \<open>
  A file of the NIFTI folder: one that \<open>nib.load\<close> cannot read, or an image with
  its array and its affine. \<open>nib.load(path).shape\<close> is the shape of the array.
\<close>

datatype 'r nifti =
    Unreadable
  | IntensityImage "intensity volume" "'r list list"
  | LabelImage "pixel volume" "'r list list"

definition nib_load_shape :: "'r nifti \<Rightarrow> pyerror + (nat \<times> nat \<times> nat)" where
  "nib_load_shape f =
     (case f of
        Unreadable \<Rightarrow> Inl ImageFileError
      | IntensityImage v aff \<Rightarrow> Inr (vshape v)
      | LabelImage v aff \<Rightarrow> Inr (vshape v))"

text \<open>
  What the two steps see of the disk: the series folders (a folder that exists maps
  to the datasets of its \<open>*.dcm\<close> files, in the order of their sorted names), the
  pickles, and the files of the NIFTI folder by name.
\<close>

record 'r disk =
  series_dirs :: "string \<rightharpoonup> ('r, intensity ndarray) dataset list"
  pickles :: "string \<rightharpoonup> seg_data"
  nifti_dir :: "string \<rightharpoonup> 'r nifti"

text \<open>
  The body of the loop of \<open>step_2_4_2_create_original_nifti\<close>. The state is the
  keys of \<open>processed_series\<close>, the disk, and the names of the files saved so far.
  When the file exists and \<open>overwrite\<close> is off, the code loads it and reads its
  shape, and skips the series without looking at that shape; a load that raises
  falls through to the creation.
\<close>

definition step_2_4_2_body ::
  "bool \<Rightarrow> seg_info \<Rightarrow> string option list \<times> ('r::{zero,one,times,minus}) disk \<times> string list
     \<Rightarrow> string option list \<times> 'r disk \<times> string list" where
  "step_2_4_2_body overwrite seg st =
     (case st of (processed_series, d, written) \<Rightarrow>
      case series_info seg of
        Missing \<Rightarrow> st
      | Null \<Rightarrow> st
      | Value si \<Rightarrow>
          (case series_folder_path si of
             None \<Rightarrow> st
           | Some series_path \<Rightarrow>
               if series_path = [] then st
               else (case series_dirs d series_path of
                  None \<Rightarrow> st
                | Some dcm_files \<Rightarrow>
                    if series_number si \<in> set processed_series then st
                    else
                      (let nii_name = fmt (series_number si) @ ''.nii'';
                           loads =
                             (case nifti_dir d nii_name of
                                None \<Rightarrow> False
                              | Some f \<Rightarrow>
                                  (case nib_load_shape f of
                                     Inl e \<Rightarrow> False | Inr shape_exists \<Rightarrow> True))
                       in if \<not> overwrite \<and> loads
                          then (series_number si # processed_series, d, written)
                          else (case load_dicom_series dcm_files of
                                  Inl e \<Rightarrow> st
                                | Inr (vol_3d, aff, dims) \<Rightarrow>
                                    (series_number si # processed_series,
                                     d\<lparr>nifti_dir :=
                                         (nifti_dir d)(nii_name \<mapsto> IntensityImage vol_3d aff)\<rparr>,
                                     written @ [nii_name]))))))"

definition step_2_4_2_create_original_nifti ::
  "(string \<times> seg_info) list \<Rightarrow> bool \<Rightarrow> ('r::{zero,one,times,minus}) disk \<Rightarrow> 'r disk \<times> string list" where
  "step_2_4_2_create_original_nifti seg_dict overwrite d =
     (case foldl (\<lambda>st (seg_folder_name, seg). step_2_4_2_body overwrite seg st)
                 ([], d, []) seg_dict of
        (processed_series, d', written) \<Rightarrow> (d', written))"

text \<open>
  The end of the loop over the segment names in step 2.4.3, for one mask: the
  warnings of its placement have been printed; then the file is kept when it
  exists, \<open>overwrite\<close> is off, and it loads with the shape of the series, and is
  saved otherwise.
\<close>

definition save_seg_nifti ::
  "bool \<Rightarrow> nat \<times> nat \<times> nat \<Rightarrow> string \<times> pixel volume \<times> 'r list list \<times> nat list
     \<Rightarrow> 'r disk \<times> string list \<times> (string \<times> nat) list
     \<Rightarrow> 'r disk \<times> string list \<times> (string \<times> nat) list" where
  "save_seg_nifti overwrite shape3 out st =
     (case out of (nii_name, mask_3d, aff, warned) \<Rightarrow>
      case st of (d, written, warnings) \<Rightarrow>
        (let warnings' = warnings @ map (\<lambda>slice_idx. (nii_name, slice_idx)) warned;
             same_shape =
               (case nifti_dir d nii_name of
                  None \<Rightarrow> False
                | Some f \<Rightarrow>
                    (case nib_load_shape f of
                       Inl e \<Rightarrow> False | Inr existing_shape \<Rightarrow> existing_shape = shape3))
         in if \<not> overwrite \<and> same_shape then (d, written, warnings')
            else (d\<lparr>nifti_dir := (nifti_dir d)(nii_name \<mapsto> LabelImage mask_3d aff)\<rparr>,
                  written @ [nii_name], warnings')))"

text \<open>
  The body of the loop of \<open>step_2_4_3_create_seg_nifti\<close>. The state is the cache of
  the series by number, the disk, the names of the files saved and the warnings
  printed. \<open>seg_info.get("series_info", {})\<close> gives \<open>None\<close> for a key that holds
  \<open>null\<close>, and \<open>None.get\<close> then raises AttributeError; a missing key gives the empty
  dictionary and the record is skipped.
\<close>

definition step_2_4_3_body ::
  "bool \<Rightarrow> string \<times> seg_info
     \<Rightarrow> (string \<times> string option list \<times> (nat \<times> nat \<times> nat) \<times> ('r::{zero,one,times,minus}) list list) list
         \<times> 'r disk \<times> string list \<times> (string \<times> nat) list
     \<Rightarrow> pyerror +
        ((string \<times> string option list \<times> (nat \<times> nat \<times> nat) \<times> 'r list list) list
         \<times> 'r disk \<times> string list \<times> (string \<times> nat) list)" where
  "step_2_4_3_body overwrite entry st =
     (case entry of (seg_folder_name, seg) \<Rightarrow>
      case st of (cache, d, written, warnings) \<Rightarrow>
      case pkl_file seg of
        None \<Rightarrow> Inr st
      | Some pkl \<Rightarrow>
          if pkl = [] then Inr st
          else (case pickles d pkl of
             None \<Rightarrow> Inr st
           | Some pickled \<Rightarrow>
               (case series_info seg of
                  Null \<Rightarrow> Inl AttributeError
                | Missing \<Rightarrow> Inr st
                | Value si \<Rightarrow>
                    (case series_number si of
                       None \<Rightarrow> Inr st
                     | Some series_no \<Rightarrow>
                    (case series_folder_path si of
                       None \<Rightarrow> Inr st
                     | Some series_path \<Rightarrow>
                         if series_no = [] \<or> series_path = [] then Inr st
                         else (case series_dirs d series_path of
                            None \<Rightarrow> Inr st
                          | Some dcm_files \<Rightarrow>
                              (case (case map_of cache series_no of
                                       Some cached \<Rightarrow> Some (cache, cached)
                                     | None \<Rightarrow>
                                         (case load_sop_uid_order dcm_files of
                                            Inl e \<Rightarrow> None
                                          | Inr loaded \<Rightarrow>
                                              Some ((series_no, loaded) # cache, loaded))) of
                                 None \<Rightarrow> Inr st
                               | Some (cache', cached) \<Rightarrow>
                                   (case foldl (\<lambda>s out. save_seg_nifti overwrite
                                                            (fst (snd cached)) out s)
                                           (d, written, warnings)
                                           (seg_outputs seg_folder_name series_no
                                              (frames pickled) cached) of
                                      (d', written', warnings') \<Rightarrow>
                                        Inr (cache', d', written', warnings')))))))))"

fun step_2_4_3_loop ::
  "bool \<Rightarrow> (string \<times> seg_info) list
     \<Rightarrow> (string \<times> string option list \<times> (nat \<times> nat \<times> nat) \<times> ('r::{zero,one,times,minus}) list list) list
         \<times> 'r disk \<times> string list \<times> (string \<times> nat) list
     \<Rightarrow> pyerror +
        ((string \<times> string option list \<times> (nat \<times> nat \<times> nat) \<times> 'r list list) list
         \<times> 'r disk \<times> string list \<times> (string \<times> nat) list)" where
  "step_2_4_3_loop overwrite [] st = Inr st"
| "step_2_4_3_loop overwrite (entry # rest) st =
     (case step_2_4_3_body overwrite entry st of
        Inl e \<Rightarrow> Inl e
      | Inr st' \<Rightarrow> step_2_4_3_loop overwrite rest st')"

definition step_2_4_3_create_seg_nifti ::
  "(string \<times> seg_info) list \<Rightarrow> bool \<Rightarrow> ('r::{zero,one,times,minus}) disk
     \<Rightarrow> pyerror + ('r disk \<times> string list \<times> (string \<times> nat) list)" where
  "step_2_4_3_create_seg_nifti seg_dict overwrite d =
     (case step_2_4_3_loop overwrite seg_dict ([], d, [], []) of
        Inl e \<Rightarrow> Inl e
      | Inr (cache, d', written, warnings) \<Rightarrow> Inr (d', written, warnings))"

section \<open>Example inputs\<close>

text \<open>
  A decoded object with two segments \<open>A\<close> and \<open>B\<close> on two slices of one row and two
  columns; on slice \<open>u2\<close> the two overlap in the first cell.
\<close>

definition mk_frame :: "nat \<Rightarrow> nat \<Rightarrow> string \<Rightarrow> string \<Rightarrow> pixel list \<Rightarrow> frame" where
  "mk_frame i n nm uid xs =
     \<lparr>frame_index = i, segment_number = Some n, segment_name = Some nm,
      segment_color = None, image_position_patient = None,
      ref_sop_uid = Some uid, pixel_data = Some (NDArray 1 2 xs)\<rparr>"

definition ex_sd :: seg_data where
  "ex_sd = \<lparr>frames = [mk_frame 0 1 ''A'' ''u1'' [1, 0], mk_frame 1 2 ''B'' ''u1'' [0, 0],
                       mk_frame 2 1 ''A'' ''u2'' [1, 1], mk_frame 3 2 ''B'' ''u2'' [1, 0]],
            num_frames = 4\<rparr>"

definition ex_items :: "merge_item list" where
  "ex_items = [\<lparr>old_objects = [''A'', ''B''], new_object = Some ''C''\<rparr>,
               \<lparr>old_objects = [''Z''], new_object = Some ''E''\<rparr>,
               \<lparr>old_objects = [], new_object = Some ''F''\<rparr>,
               \<lparr>old_objects = [''C'', ''B''], new_object = Some ''D''\<rparr>]"

definition ex_new_C :: "frame list" where
  "ex_new_C = [mk_frame 4 3 ''C'' ''u1'' [1, 0], mk_frame 5 3 ''C'' ''u2'' [1, 1]]"

definition ex_new_D :: "frame list" where
  "ex_new_D = [mk_frame 6 5 ''D'' ''u1'' [1, 0], mk_frame 7 5 ''D'' ''u2'' [1, 1]]"

definition ex_events :: "merge_event list" where
  "ex_events = [Merged 3 ex_new_C, NoFrames 4, InvalidEntry, Merged 5 ex_new_D]"

definition ex_merged :: seg_data where
  "ex_merged = \<lparr>frames = frames ex_sd @ ex_new_C @ ex_new_D, num_frames = 8\<rparr>"

text \<open>
  One frame of segment 1 and a plan whose first directive names an object that is
  not there.
\<close>

definition cx_sd :: seg_data where
  "cx_sd = \<lparr>frames = [mk_frame 0 1 ''A'' ''u1'' [1, 0]], num_frames = 1\<rparr>"

definition cx_items :: "merge_item list" where
  "cx_items = [\<lparr>old_objects = [''Z''], new_object = Some ''E''\<rparr>,
               \<lparr>old_objects = [''A''], new_object = Some ''C''\<rparr>]"

definition cx_new :: frame where
  "cx_new = mk_frame 1 3 ''C'' ''u1'' [1, 0]"

text \<open>
  A segmentation file with two frames; the second segment has no label. The second
  file declares three frames and holds three planes, but its per-frame block has
  two items. The third file has one frame, so its pixel array has two dimensions.
\<close>

definition ex_planes :: "pixel ndarray list" where
  "ex_planes = [NDArray 1 2 [1, 0], NDArray 1 2 [0, 1]]"

definition ex_seg_ds :: "(rat, pixels) dataset" where
  "ex_seg_ds =
     \<lparr>InstanceNumber = None, SOPInstanceUID = None, Rows = Some 1, Columns = Some 2,
      PixelSpacing = None, SliceThickness = None, ImageOrientationPatient = None,
      ImagePositionPatient = None, NumberOfFrames = Some 2,
      SegmentSequence =
        Some [\<lparr>SegmentNumber = Some 1, SegmentLabel = Some ''A'',
                RecommendedDisplayCIELabValue = None\<rparr>,
              \<lparr>SegmentNumber = Some 12, SegmentLabel = None,
                RecommendedDisplayCIELabValue = Some [1, 2, 3]\<rparr>],
      PerFrameFunctionalGroupsSequence =
        Some [\<lparr>SegmentIdentificationSequence = Some [Some 1],
                DerivationImageSequence = Some [Some [Some ''u1'']],
                PlanePositionSequence = Some [Some [0, 0, 5]]\<rparr>,
              \<lparr>SegmentIdentificationSequence = Some [Some 12],
                DerivationImageSequence = Some [None],
                PlanePositionSequence = None\<rparr>],
      pixel_array = Some (Array3D ex_planes)\<rparr>"

definition ex_decoded :: seg_data where
  "ex_decoded =
     \<lparr>frames =
        [\<lparr>frame_index = 0, segment_number = Some 1, segment_name = Some ''A'',
          segment_color = None, image_position_patient = Some [0, 0, 5],
          ref_sop_uid = Some ''u1'', pixel_data = Some (NDArray 1 2 [1, 0])\<rparr>,
         \<lparr>frame_index = 1, segment_number = Some 12, segment_name = Some ''Label_12'',
          segment_color = Some [1, 2, 3], image_position_patient = None,
          ref_sop_uid = None, pixel_data = Some (NDArray 1 2 [0, 1])\<rparr>],
      num_frames = 2\<rparr>"

definition ex_planes3 :: "pixel ndarray list" where
  "ex_planes3 = [NDArray 1 2 [1, 0], NDArray 1 2 [0, 1], NDArray 1 2 [1, 1]]"

definition ex_seg_ds_short :: "(rat, pixels) dataset" where
  "ex_seg_ds_short =
     ex_seg_ds\<lparr>NumberOfFrames := Some 3, pixel_array := Some (Array3D ex_planes3)\<rparr>"

definition null_frame :: "nat \<Rightarrow> pixel ndarray \<Rightarrow> frame" where
  "null_frame i p =
     \<lparr>frame_index = i, segment_number = None, segment_name = None, segment_color = None,
      image_position_patient = None, ref_sop_uid = None, pixel_data = Some p\<rparr>"

definition ex_fallback :: seg_data where
  "ex_fallback =
     \<lparr>frames = [null_frame 0 (NDArray 1 2 [1, 0]), null_frame 1 (NDArray 1 2 [0, 1]),
                null_frame 2 (NDArray 1 2 [1, 1])],
      num_frames = 3\<rparr>"

definition ex_seg_ds_single :: "(rat, pixels) dataset" where
  "ex_seg_ds_single =
     ex_seg_ds\<lparr>NumberOfFrames := Some 1,
               PerFrameFunctionalGroupsSequence :=
                 Some [\<lparr>SegmentIdentificationSequence = Some [Some 1],
                         DerivationImageSequence = Some [Some [Some ''u1'']],
                         PlanePositionSequence = None\<rparr>],
               pixel_array := Some (Array2D (NDArray 1 2 [1, 0]))\<rparr>"

text \<open>A catalog in which two entries carry the same series identity.\<close>

definition ex_entry_other :: series_entry where
  "ex_entry_other = \<lparr>series_folder_path = Some ''/scans/1'', series_number = Some ''1'',
                     series_uid = Some ''1.2.9'', series_description = None\<rparr>"

definition ex_entry_first :: series_entry where
  "ex_entry_first = \<lparr>series_folder_path = Some ''/scans/2'', series_number = Some ''2'',
                     series_uid = Some ''1.2.3'', series_description = Some ''CT''\<rparr>"

definition ex_entry_dup :: series_entry where
  "ex_entry_dup = \<lparr>series_folder_path = Some ''/scans/3'', series_number = Some ''3'',
                   series_uid = Some ''1.2.3'', series_description = None\<rparr>"

definition ex_catalog :: "(string \<times> series_entry) list" where
  "ex_catalog = [(''1'', ex_entry_other), (''2'', ex_entry_first), (''3'', ex_entry_dup)]"

definition ex_seg :: seg_info where
  "ex_seg = \<lparr>ref_series_uid = Some ''1.2.3'', pkl_file = Some ''a.pkl'',
             series_info = Missing\<rparr>"

definition cx_seg :: seg_info where
  "cx_seg = \<lparr>ref_series_uid = None, pkl_file = Some ''b.pkl'', series_info = Missing\<rparr>"

text \<open>
  A series of two slices of one row and two columns; the file names list the
  second slice first.
\<close>

definition mk_slice :: "int \<Rightarrow> string option \<Rightarrow> intensity list \<Rightarrow> (rat, intensity ndarray) dataset" where
  "mk_slice inst uid xs =
     \<lparr>InstanceNumber = Some inst, SOPInstanceUID = uid, Rows = Some 1, Columns = Some 2,
      PixelSpacing = Some (1 / 2, 1 / 2), SliceThickness = Some 2,
      ImageOrientationPatient = None, ImagePositionPatient = Some (0, 0, 10 * of_int inst),
      NumberOfFrames = None, SegmentSequence = None,
      PerFrameFunctionalGroupsSequence = None, pixel_array = Some (NDArray 1 2 xs)\<rparr>"

definition ex_dcm :: "(rat, intensity ndarray) dataset list" where
  "ex_dcm = [mk_slice 2 (Some ''u2'') [30, 40], mk_slice 1 (Some ''u1'') [10, 20]]"

definition ex_vol :: "intensity volume" where
  "ex_vol = \<lparr>vshape = (1, 2, 2), vplanes = [NDArray 1 2 [10, 20], NDArray 1 2 [30, 40]]\<rparr>"

definition ex_aff :: "rat list list" where
  "ex_aff = [[1 / 2, 0, 0, 0], [0, 1 / 2, 0, 0], [0, 0, 2, 10], [0, 0, 0, 1]]"


text \<open>
  A pickle whose second frame has two rows where the series has one, a disk with
  the series of \<open>ex_dcm\<close> and two pickles, and the records of two segmentations that
  refer to that series.
\<close>

definition ex_bad_frame :: frame where
  "ex_bad_frame =
     \<lparr>frame_index = 1, segment_number = Some 1, segment_name = Some ''A'',
      segment_color = None, image_position_patient = None,
      ref_sop_uid = Some ''u2'', pixel_data = Some (NDArray 2 2 [1, 1, 1, 1])\<rparr>"

definition ex_sd_bad :: seg_data where
  "ex_sd_bad = \<lparr>frames = [mk_frame 0 1 ''A'' ''u1'' [1, 0], ex_bad_frame,
                           mk_frame 2 2 ''B'' ''u2'' [1, 1]],
                num_frames = 3\<rparr>"

definition ex_disk :: "rat disk" where
  "ex_disk = \<lparr>series_dirs = [''/scans/2'' \<mapsto> ex_dcm],
              pickles = [''a.pkl'' \<mapsto> ex_sd_bad, ''b.pkl'' \<mapsto> ex_sd],
              nifti_dir = Map.empty\<rparr>"

definition ex_seg_dict :: "(string \<times> seg_info) list" where
  "ex_seg_dict =
     [(''S1'', \<lparr>ref_series_uid = Some ''1.2.3'', pkl_file = Some ''a.pkl'',
               series_info = Value ex_entry_first\<rparr>),
      (''S2'', \<lparr>ref_series_uid = Some ''1.2.3'', pkl_file = Some ''b.pkl'',
               series_info = Value ex_entry_first\<rparr>)]"

text \<open>
  The same disk with a file \<open>2.nii\<close> that loads with shape (1, 1, 1), while the
  series has shape (1, 2, 2).
\<close>

definition cx_old_nii :: "rat nifti" where
  "cx_old_nii = IntensityImage \<lparr>vshape = (1, 1, 1), vplanes = [NDArray 1 1 [7]]\<rparr> ex_aff"

definition cx_disk :: "rat disk" where
  "cx_disk = ex_disk\<lparr>nifti_dir := [''2.nii'' \<mapsto> cx_old_nii]\<rparr>"

text \<open>
  A series whose second slice has no SOPInstanceUID, and a frame without slice
  identity, as the fallback of the decoder writes it.
\<close>

definition cx_dcm :: "(rat, intensity ndarray) dataset list" where
  "cx_dcm = [mk_slice 1 (Some ''u1'') [10, 20], mk_slice 2 None [30, 40]]"

definition cx_frames :: "frame list" where
  "cx_frames = [null_frame 0 (NDArray 1 2 [1, 1])]"

section \<open>Proofs: merging\<close>

lemma word_le_one: "(x::pixel) \<le> 1 \<Longrightarrow> x = 0 \<or> x = 1"
  by unat_arith

lemma clip01_binary: "clip01 x = 0 \<or> clip01 x = 1"
  unfolding clip01_def by (rule word_le_one) simp

lemma clip_all_binary:
  "(k, a) \<in> set (clip_all sm) \<Longrightarrow> x \<in> set (cells a) \<Longrightarrow> x = 0 \<or> x = 1"
proof -
  assume "(k, a) \<in> set (clip_all sm)" and x: "x \<in> set (cells a)"
  then obtain b where "a = np_clip01 b" by (auto simp: clip_all_def)
  with x obtain y where "x = clip01 y" by (auto simp: np_clip01_def)
  then show ?thesis using clip01_binary [of y] by simp
qed

lemma build_new_frames_props:
  "f \<in> set (build_new_frames idx n nm sm) \<Longrightarrow>
     segment_number f = Some n \<and> segment_name f = Some nm \<and>
     (\<exists>a \<in> snd ` set sm. pixel_data f = Some a)"
  by (induction idx n nm sm rule: build_new_frames.induct) (auto split: if_splits)

lemma build_new_frames_index:
  "i < length (build_new_frames idx n nm sm) \<Longrightarrow>
     frame_index (build_new_frames idx n nm sm ! i) = idx + i"
proof (induction idx n nm sm arbitrary: i rule: build_new_frames.induct)
  case (1 idx n nm)
  then show ?case by simp
next
  case (2 idx n nm uid ipp sum_mask rest)
  then show ?case by (cases i) (auto split: if_splits)
qed

lemma merge_one_cases:
  assumes "merge_one item (sd, m) = Inr (st', ev)"
  obtains (invalid) "ev = InvalidEntry" "st' = (sd, m)"
  | (nothing) "ev = NoFrames (m + 1)" "st' = (sd, m + 1)"
  | (merged) nm sm new where
      "new_object item = Some nm"
      "accumulate (old_objects item) (frames sd) [] = Inr sm"
      "new = build_new_frames (length (frames sd)) (m + 1) nm (clip_all sm)"
      "new \<noteq> []" "ev = Merged (m + 1) new"
      "st' = (\<lparr>frames = frames sd @ new, num_frames = length (frames sd @ new)\<rparr>, m + 1)"
  using assms unfolding merge_one_def
  by (auto simp: Let_def split: option.splits sum.splits if_splits)

lemma merge_one_frames:
  assumes "merge_one item (sd, m) = Inr ((sd', m'), ev)"
  shows "frames sd' = frames sd @ emitted ev"
  using assms by (elim merge_one_cases) auto

lemma merge_one_counter:
  assumes "merge_one item (sd, m) = Inr ((sd', m'), ev)"
  shows "m' = m + length (List.map_filter assigned [ev])"
    and "assigned ev = Some n \<Longrightarrow> n = m + 1"
  using assms by (elim merge_one_cases; auto simp: List.map_filter_def)+

lemma merge_one_emitted:
  assumes "merge_one item (sd, m) = Inr ((sd', m'), ev)" and "f \<in> set (emitted ev)"
  shows "segment_number f = Some (m + 1)" and "binary_frame f"
proof -
  from assms obtain nm sm where
    f: "f \<in> set (build_new_frames (length (frames sd)) (m + 1) nm (clip_all sm))"
    by (elim merge_one_cases) auto
  from build_new_frames_props [OF f] show "segment_number f = Some (m + 1)" by simp
  from build_new_frames_props [OF f] obtain k a where
    "(k, a) \<in> set (clip_all sm)" and "pixel_data f = Some a" by auto
  then show "binary_frame f"
    using clip_all_binary [of k a sm] by (auto simp: binary_frame_def)
qed

lemma existing_seg_numbers_append:
  "existing_seg_numbers (xs @ ys) = existing_seg_numbers xs @ existing_seg_numbers ys"
  by (simp add: existing_seg_numbers_def List.map_filter_def)

lemma existing_seg_numbers_const:
  "\<forall>f \<in> set new. segment_number f = Some n \<Longrightarrow>
     existing_seg_numbers new = replicate (length new) n"
  by (induction new) (auto simp: existing_seg_numbers_def List.map_filter_simps)

lemma initial_max_bound: "seg_bound frs (initial_max_seg_num frs)"
  by (auto simp: seg_bound_def initial_max_seg_num_def Let_def)

lemma initial_max_append_new:
  assumes "seg_bound frs m" and "new \<noteq> []"
    and "\<forall>f \<in> set new. segment_number f = Some (m + 1)"
  shows "initial_max_seg_num (frs @ new) = m + 1"
proof -
  have ex: "existing_seg_numbers (frs @ new)
            = existing_seg_numbers frs @ replicate (length new) (m + 1)"
    using existing_seg_numbers_const [OF assms(3)] by (simp add: existing_seg_numbers_append)
  have ne: "existing_seg_numbers (frs @ new) \<noteq> []"
    using assms(2) by (simp add: ex)
  have "Max (set (existing_seg_numbers (frs @ new))) = m + 1"
  proof (rule Max_eqI)
    show "finite (set (existing_seg_numbers (frs @ new)))" by simp
    show "m + 1 \<in> set (existing_seg_numbers (frs @ new))"
      using assms(2) by (simp add: ex)
    fix y assume "y \<in> set (existing_seg_numbers (frs @ new))"
    then show "y \<le> m + 1"
      using assms(1) by (auto simp: ex seg_bound_def)
  qed
  then show ?thesis using ne by (simp add: initial_max_seg_num_def Let_def)
qed

lemma merge_one_bound:
  assumes "merge_one item (sd, m) = Inr ((sd', m'), ev)" and "seg_bound (frames sd) m"
  shows "seg_bound (frames sd') m'"
proof -
  have fr: "frames sd' = frames sd @ emitted ev" by (rule merge_one_frames [OF assms(1)])
  have m': "m \<le> m'" using merge_one_counter(1) [OF assms(1)] by simp
  have "emitted ev \<noteq> [] \<Longrightarrow> m' = m + 1"
    using assms(1) by (elim merge_one_cases) auto
  moreover have "\<forall>f \<in> set (emitted ev). segment_number f = Some (m + 1)"
    using merge_one_emitted(1) [OF assms(1)] by blast
  then have "existing_seg_numbers (emitted ev) = replicate (length (emitted ev)) (m + 1)"
    by (rule existing_seg_numbers_const)
  ultimately show ?thesis
    using assms(2) m'
    by (cases "emitted ev = []")
       (auto simp: seg_bound_def fr existing_seg_numbers_append)
qed

lemma merge_one_exact:
  assumes "merge_one item (sd, m) = Inr ((sd', m'), ev)"
    and "m = initial_max_seg_num (frames sd)" and "\<forall>k. ev \<noteq> NoFrames k"
  shows "m' = initial_max_seg_num (frames sd')"
  using assms(1)
proof (cases rule: merge_one_cases)
  case invalid
  then show ?thesis using assms(2) by simp
next
  case nothing
  then show ?thesis using assms(3) by simp
next
  case (merged nm sm new)
  have "\<forall>f \<in> set new. segment_number f = Some (m + 1)"
    using merge_one_emitted(1) [OF assms(1)] merged(5) by simp
  then have "initial_max_seg_num (frames sd @ new) = m + 1"
    using initial_max_append_new [of "frames sd" m new] initial_max_bound [of "frames sd"]
      assms(2) merged(4) by simp
  then show ?thesis using merged(6) by simp
qed

lemma merge_loop_whole:
  "merge_loop items (sd, m) = Inr ((sd', m'), evs) \<Longrightarrow>
     frames sd' = frames sd @ concat (map emitted evs) \<and>
     m' = m + length (List.map_filter assigned evs) \<and>
     (seg_bound (frames sd) m \<longrightarrow> seg_bound (frames sd') m') \<and>
     (m = initial_max_seg_num (frames sd) \<and> (\<forall>k. NoFrames k \<notin> set evs)
        \<longrightarrow> m' = initial_max_seg_num (frames sd'))"
proof (induction items arbitrary: sd m evs)
  case Nil
  then show ?case by (simp add: List.map_filter_simps)
next
  case (Cons item items)
  from Cons.prems obtain sd1 m1 ev evs' where
    one: "merge_one item (sd, m) = Inr ((sd1, m1), ev)" and
    rest: "merge_loop items (sd1, m1) = Inr ((sd', m'), evs')" and
    evs: "evs = ev # evs'"
    by (auto split: sum.splits)
  note ih = Cons.IH [OF rest]
  have f1: "frames sd1 = frames sd @ emitted ev" by (rule merge_one_frames [OF one])
  have c1: "m1 = m + length (List.map_filter assigned [ev])"
    by (rule merge_one_counter(1) [OF one])
  have len: "length (List.map_filter assigned (ev # evs'))
             = length (List.map_filter assigned [ev]) + length (List.map_filter assigned evs')"
    by (simp add: List.map_filter_def)
  show ?case
    using ih f1 c1 len merge_one_bound [OF one] merge_one_exact [OF one]
    by (auto simp: evs)
qed

lemma merge_loop_split:
  "merge_loop items st = Inr (st', pre @ ev # post) \<Longrightarrow>
     \<exists>st1 st2 item. merge_loop (take (length pre) items) st = Inr (st1, pre) \<and>
                     merge_one item st1 = Inr (st2, ev)"
proof (induction items arbitrary: st pre)
  case Nil
  then show ?case by simp
next
  case (Cons item items)
  from Cons.prems obtain s1 e1 evs' where
    one: "merge_one item st = Inr (s1, e1)" and
    rest: "merge_loop items s1 = Inr (st', evs')" and
    evs: "e1 # evs' = pre @ ev # post"
    by (auto split: sum.splits)
  show ?case
  proof (cases pre)
    case Nil
    with evs one have "merge_loop (take (length pre) (item # items)) st = Inr (st, pre)"
      and "merge_one item st = Inr (s1, ev)" by auto
    then show ?thesis by blast
  next
    case (Cons p pre')
    with evs have p: "p = e1" and evs': "evs' = pre' @ ev # post" by auto
    from Cons.IH [OF rest [unfolded evs']] obtain st1 st2 item' where
      "merge_loop (take (length pre') items) s1 = Inr (st1, pre')"
      "merge_one item' st1 = Inr (st2, ev)" by blast
    then have "merge_loop (take (length pre) (item # items)) st = Inr (st1, pre)"
      and "merge_one item' st1 = Inr (st2, ev)" using one Cons p by auto
    then show ?thesis by blast
  qed
qed

lemma merge_segmentation_loop:
  assumes "merge_segmentation items sd = Inr (sd', evs)"
  obtains m' where
    "merge_loop items (sd, initial_max_seg_num (frames sd)) = Inr ((sd', m'), evs)"
  using assms unfolding merge_segmentation_def by (auto split: sum.splits)

lemma merge_event_origin:
  assumes "merge_segmentation items sd = Inr (sd', evs)" and "evs = pre @ ev # post"
  obtains item sd1 sd2 m2 where
    "merge_loop (take (length pre) items) (sd, initial_max_seg_num (frames sd))
       = Inr ((sd1, initial_max_seg_num (frames sd) + length (List.map_filter assigned pre)), pre)"
    "merge_one item (sd1, initial_max_seg_num (frames sd) + length (List.map_filter assigned pre))
       = Inr ((sd2, m2), ev)"
proof -
  from assms(1) obtain m' where
    loop: "merge_loop items (sd, initial_max_seg_num (frames sd)) = Inr ((sd', m'), evs)"
    by (rule merge_segmentation_loop)
  from merge_loop_split [OF loop [unfolded assms(2)]] obtain st1 st2 item where
    a: "merge_loop (take (length pre) items) (sd, initial_max_seg_num (frames sd)) = Inr (st1, pre)"
    and b: "merge_one item st1 = Inr (st2, ev)" by blast
  obtain sd1 m1 where st1: "st1 = (sd1, m1)" by (cases st1)
  obtain sd2 m2 where st2: "st2 = (sd2, m2)" by (cases st2)
  have "m1 = initial_max_seg_num (frames sd) + length (List.map_filter assigned pre)"
    using merge_loop_whole [OF a [unfolded st1]] by simp
  with a b st1 st2 show ?thesis using that by simp
qed

lemma ex_run: "merge_segmentation ex_items ex_sd = Inr (ex_merged, ex_events)"
  by code_simp

text \<open>
  Claim C3. Every frame that a merge directive emits carries a label array whose cells
  are all 0 or 1: the sums are clipped to [0, 1] before the frames are built. This
  holds whatever the source arrays contain, so in particular when they are binary and
  overlap.
\<close>

theorem merge_binariness:
  assumes "merge_segmentation items sd = Inr (sd', evs)"
    and "Merged n new \<in> set evs" and "f \<in> set new"
  shows "\<exists>a. pixel_data f = Some a \<and> (\<forall>x \<in> set (cells a). x = 0 \<or> x = 1)"
proof -
  from assms(2) obtain pre post where "evs = pre @ Merged n new # post"
    by (auto dest: split_list)
  with assms(1) obtain item sd1 sd2 m2 where
    "merge_one item
       (sd1, initial_max_seg_num (frames sd) + length (List.map_filter assigned pre))
     = Inr ((sd2, m2), Merged n new)"
    by (rule merge_event_origin)
  from merge_one_emitted(2) [OF this] assms(3) have "binary_frame f" by simp
  then show ?thesis by (auto simp: binary_frame_def split: option.splits)
qed

text \<open>
  In the example the directive \<open>A, B \<rightarrow> C\<close> meets an overlap on slice \<open>u2\<close>
  (sum 2 in the first cell); the emitted frame holds 1 there.
\<close>

theorem merge_binariness_witness:
  "merge_segmentation ex_items ex_sd = Inr (ex_merged, ex_events) \<and>
   Merged 3 ex_new_C \<in> set ex_events \<and>
   mk_frame 5 3 ''C'' ''u2'' [1, 1] \<in> set ex_new_C \<and>
   (\<exists>a. pixel_data (mk_frame 5 3 ''C'' ''u2'' [1, 1]) = Some a \<and>
        (\<forall>x \<in> set (cells a). x = 0 \<or> x = 1))"
proof -
  have ev: "Merged 3 ex_new_C \<in> set ex_events" by (simp add: ex_events_def)
  have fr: "mk_frame 5 3 ''C'' ''u2'' [1, 1] \<in> set ex_new_C" by (simp add: ex_new_C_def)
  from merge_binariness [OF ex_run ev fr] ex_run ev fr show ?thesis by blast
qed

text \<open>
  Claim C7. After a merge plan has run on an object, the stored frame list is the
  old frame list followed by new frames: every frame that was there is still there,
  at the same position and with the same fields.
\<close>

theorem merge_non_destructive:
  "\<exists>new. frames (pickle_after_merge items sd) = frames sd @ new"
proof (cases "merge_segmentation items sd")
  case (Inl e)
  then show ?thesis by (simp add: pickle_after_merge_def)
next
  case (Inr r)
  obtain sd' evs where r: "r = (sd', evs)" by (cases r)
  from Inr r have "merge_segmentation items sd = Inr (sd', evs)" by simp
  then obtain m' where
    "merge_loop items (sd, initial_max_seg_num (frames sd)) = Inr ((sd', m'), evs)"
    by (rule merge_segmentation_loop)
  from merge_loop_whole [OF this] show ?thesis
    using Inr r by (simp add: pickle_after_merge_def)
qed

theorem merge_non_destructive_witness:
  "\<exists>new. frames (pickle_after_merge ex_items ex_sd) = frames ex_sd @ new"
  using merge_non_destructive [of ex_items ex_sd] by simp

text \<open>
  What holds of the numbers that the counter hands out. The frames that one
  directive emits share one number; it is greater than every segment number in the
  object at that time; it is the largest of them plus one when no earlier
  directive of the run came out empty; and a later directive of the same run gets
  a greater number.
\<close>

lemma merge_numbers_of_run:
  assumes "merge_segmentation items sd = Inr (sd', evs)"
    and "evs = pre @ Merged n new # post"
  shows "new \<noteq> [] \<and> (\<forall>f \<in> set new. segment_number f = Some n) \<and>
         n = initial_max_seg_num (frames sd) + length (List.map_filter assigned pre) + 1 \<and>
         (\<forall>x \<in> set (existing_seg_numbers (frames sd @ concat (map emitted pre))). x < n) \<and>
         ((\<forall>k. NoFrames k \<notin> set pre) \<longrightarrow>
            n = initial_max_seg_num (frames sd @ concat (map emitted pre)) + 1) \<and>
         (\<forall>mid n' new' post'. post = mid @ Merged n' new' # post' \<longrightarrow> n < n')"
proof -
  let ?m0 = "initial_max_seg_num (frames sd)"
  let ?m1 = "?m0 + length (List.map_filter assigned pre)"
  from assms obtain item sd1 sd2 m2 where
    pre: "merge_loop (take (length pre) items) (sd, ?m0) = Inr ((sd1, ?m1), pre)" and
    one: "merge_one item (sd1, ?m1) = Inr ((sd2, m2), Merged n new)"
    by (rule merge_event_origin)
  have n: "n = ?m1 + 1" using merge_one_counter(2) [OF one, of n] by simp
  have ne: "new \<noteq> []" using one by (elim merge_one_cases) auto
  have same: "\<forall>f \<in> set new. segment_number f = Some n"
    using merge_one_emitted(1) [OF one] n by simp
  note w = merge_loop_whole [OF pre]
  have fr: "frames sd1 = frames sd @ concat (map emitted pre)" using w by simp
  have "seg_bound (frames sd1) ?m1" using w initial_max_bound [of "frames sd"] by blast
  then have below: "\<forall>x \<in> set (existing_seg_numbers (frames sd @ concat (map emitted pre))). x < n"
    using n by (auto simp: seg_bound_def fr)
  have exact: "(\<forall>k. NoFrames k \<notin> set pre) \<longrightarrow>
            n = initial_max_seg_num (frames sd @ concat (map emitted pre)) + 1"
    using w n by (simp add: fr)
  have later: "n < n'" if "post = mid @ Merged n' new' # post'" for mid n' new' post'
  proof -
    have "evs = (pre @ Merged n new # mid) @ Merged n' new' # post'"
      using assms(2) that by simp
    with assms(1) obtain item' sa sb mb where
      "merge_one item' (sa, ?m0 + length (List.map_filter assigned (pre @ Merged n new # mid)))
         = Inr ((sb, mb), Merged n' new')"
      by (rule merge_event_origin)
    from merge_one_counter(2) [OF this, of n']
    have "n' = ?m0 + length (List.map_filter assigned (pre @ Merged n new # mid)) + 1" by simp
    then show ?thesis using n by (simp add: List.map_filter_def)
  qed
  from later have later': "\<forall>mid n' new' post'. post = mid @ Merged n' new' # post' \<longrightarrow> n < n'"
    by blast
  show ?thesis
    by (intro conjI) (rule ne, rule same, rule n, rule below, rule exact, rule later')
qed

text \<open>
  Claim C2: the frames that a directive emits share one segment number equal to the
  largest segment number in the object at that time plus one. The code's own
  comment says the same (\<open>max existing + 1\<close>), but the counter is increased before
  it is known whether the directive emits frames. On the input below the first
  directive names an object that is not there: it emits nothing and still takes
  number 2. The second directive then emits its frame with number 3, while the
  largest segment number in the object at that time is 1, so the claim asks for 2.
\<close>

theorem merge_segment_numbering_failing_input:
  "merge_segmentation cx_items cx_sd
     = Inr (\<lparr>frames = frames cx_sd @ [cx_new], num_frames = 2\<rparr>,
            [NoFrames 2, Merged 3 [cx_new]]) \<and>
   segment_number cx_new = Some 3 \<and>
   initial_max_seg_num (frames cx_sd) + 1 = 2"
  by code_simp

section \<open>Proofs: decoding\<close>

lemma decode_frames_length:
  "decode_frames sm rows columns arr i fis = Inr frs \<Longrightarrow> length frs = length fis"
  by (induction fis arbitrary: i frs) (auto split: sum.splits)

lemma decode_frame_returns:
  "i < length planes \<or> (rows \<noteq> None \<and> columns \<noteq> None) \<Longrightarrow>
     \<exists>fr. decode_frame sm rows columns (Array3D planes) i fi = Inr fr"
  by (auto simp: decode_frame_def Let_def shape0_def plane_def)

lemma decode_frames_returns:
  "i + length fis \<le> length planes \<or> (rows \<noteq> None \<and> columns \<noteq> None) \<Longrightarrow>
     \<exists>frs. decode_frames sm rows columns (Array3D planes) i fis = Inr frs"
proof (induction fis arbitrary: i)
  case Nil
  then show ?case by simp
next
  case (Cons fi fis)
  from Cons.prems have "i < length planes \<or> (rows \<noteq> None \<and> columns \<noteq> None)" by auto
  from decode_frame_returns [OF this] obtain fr where
    fr: "decode_frame sm rows columns (Array3D planes) i fi = Inr fr" by blast
  from Cons.prems have "Suc i + length fis \<le> length planes \<or> (rows \<noteq> None \<and> columns \<noteq> None)"
    by auto
  from Cons.IH [OF this] obtain frs where
    "decode_frames sm rows columns (Array3D planes) (Suc i) fis = Inr frs" by blast
  with fr show ?case by simp
qed

lemma fallback_loop_frames:
  "fallback_loop arr idxs = Inr frs \<Longrightarrow>
     length frs = length idxs \<and>
     (\<forall>k < length idxs. \<exists>m. plane arr (idxs ! k) = Inr m \<and>
         frs ! k = \<lparr>frame_index = idxs ! k, segment_number = None, segment_name = None,
                    segment_color = None, image_position_patient = None,
                    ref_sop_uid = None, pixel_data = Some m\<rparr>)"
proof (induction idxs arbitrary: frs)
  case Nil
  then show ?case by simp
next
  case (Cons i idxs)
  from Cons.prems obtain p rest where
    p: "plane arr i = Inr p" and rest: "fallback_loop arr idxs = Inr rest" and
    frs: "frs = \<lparr>frame_index = i, segment_number = None, segment_name = None,
                   segment_color = None, image_position_patient = None,
                   ref_sop_uid = None, pixel_data = Some p\<rparr> # rest"
    by (auto split: sum.splits)
  from Cons.IH [OF rest] have
    len: "length rest = length idxs" and
    each: "\<forall>k < length idxs. \<exists>m. plane arr (idxs ! k) = Inr m \<and>
         rest ! k = \<lparr>frame_index = idxs ! k, segment_number = None, segment_name = None,
                     segment_color = None, image_position_patient = None,
                     ref_sop_uid = None, pixel_data = Some m\<rparr>"
    by simp_all
  show ?case
  proof (intro conjI allI impI)
    show "length frs = length (i # idxs)" using len frs by simp
  next
    fix k assume k: "k < length (i # idxs)"
    show "\<exists>m. plane arr ((i # idxs) ! k) = Inr m \<and>
         frs ! k = \<lparr>frame_index = (i # idxs) ! k, segment_number = None, segment_name = None,
                    segment_color = None, image_position_patient = None,
                    ref_sop_uid = None, pixel_data = Some m\<rparr>"
    proof (cases k)
      case 0
      then show ?thesis using p frs by simp
    next
      case (Suc j)
      with k have "j < length idxs" by simp
      with each Suc frs show ?thesis by simp
    qed
  qed
qed

lemma fallback_loop_returns:
  "\<forall>i \<in> set idxs. i < length planes \<Longrightarrow> \<exists>frs. fallback_loop (Array3D planes) idxs = Inr frs"
  by (induction idxs) (auto simp: plane_def)

lemma fallback_result_frames:
  assumes "fallback_result arr = Inr sd"
  shows "num_frames sd = length (frames sd)" and "length (frames sd) = shape0 arr"
    and "\<forall>i < shape0 arr. \<exists>m. plane arr i = Inr m \<and>
           frames sd ! i = \<lparr>frame_index = i, segment_number = None, segment_name = None,
                             segment_color = None, image_position_patient = None,
                             ref_sop_uid = None, pixel_data = Some m\<rparr>"
proof -
  from assms obtain frs where
    loop: "fallback_loop arr [0 ..< shape0 arr] = Inr frs" and
    sd: "sd = \<lparr>frames = frs, num_frames = length frs\<rparr>"
    by (auto simp: fallback_result_def split: sum.splits)
  note fl = fallback_loop_frames [OF loop]
  show "num_frames sd = length (frames sd)" using sd by simp
  show "length (frames sd) = shape0 arr" using fl sd by simp
  show "\<forall>i < shape0 arr. \<exists>m. plane arr i = Inr m \<and>
           frames sd ! i = \<lparr>frame_index = i, segment_number = None, segment_name = None,
                             segment_color = None, image_position_patient = None,
                             ref_sop_uid = None, pixel_data = Some m\<rparr>"
  proof (intro allI impI)
    fix i assume i: "i < shape0 arr"
    with fl have "\<exists>m. plane arr ([0 ..< shape0 arr] ! i) = Inr m \<and>
         frs ! i = \<lparr>frame_index = [0 ..< shape0 arr] ! i, segment_number = None,
                    segment_name = None, segment_color = None, image_position_patient = None,
                    ref_sop_uid = None, pixel_data = Some m\<rparr>"
      by simp
    with i sd show "\<exists>m. plane arr i = Inr m \<and>
           frames sd ! i = \<lparr>frame_index = i, segment_number = None, segment_name = None,
                             segment_color = None, image_position_patient = None,
                             ref_sop_uid = None, pixel_data = Some m\<rparr>"
      by simp
  qed
qed

lemma fallback_result_returns: "\<exists>sd. fallback_result (Array3D planes) = Inr sd"
proof -
  have "\<forall>i \<in> set [0 ..< length planes]. i < length planes" by simp
  from fallback_loop_returns [OF this] obtain frs where
    "fallback_loop (Array3D planes) [0 ..< length planes] = Inr frs" by blast
  then show ?thesis by (simp add: fallback_result_def shape0_def)
qed

lemma decode_cases:
  assumes "decode_segmentation_dcm ds = Inr sd"
  obtains (well_formed) per_frame frs where
      "per_frame_well_formed ds" "PerFrameFunctionalGroupsSequence ds = Some per_frame"
      "length frs = length per_frame" "sd = \<lparr>frames = frs, num_frames = length frs\<rparr>"
  | (fallback) arr where
      "\<not> per_frame_well_formed ds" "pixel_array ds = Some arr" "fallback_result arr = Inr sd"
proof (cases "per_frame_well_formed ds")
  case True
  then obtain per_frame where
    pf: "PerFrameFunctionalGroupsSequence ds = Some per_frame" and
    len: "int (length per_frame) = declared_num_frames ds"
    by (auto simp: per_frame_well_formed_def split: option.splits)
  from assms pf len obtain arr sm frs where
    "decode_frames sm (Rows ds) (Columns ds) arr 0 per_frame = Inr frs" and
    sd: "sd = \<lparr>frames = frs, num_frames = length frs\<rparr>"
    by (auto simp: decode_segmentation_dcm_def Let_def split: option.splits sum.splits)
  from decode_frames_length [OF this(1)] True pf sd show ?thesis
    by (rule_tac well_formed) auto
next
  case False
  with assms obtain arr where
    "pixel_array ds = Some arr" and "fallback_result arr = Inr sd"
    by (auto simp: decode_segmentation_dcm_def per_frame_well_formed_def Let_def
             split: option.splits if_splits)
  with False show ?thesis by (rule_tac fallback) auto
qed

text \<open>
  Claim C4. For every object that the decoder returns: when the per-frame block is
  present and has as many items as the file declares frames, the frame list has
  exactly the declared number of entries; otherwise there is one frame for each
  index of the first axis of the pixel array, holding its index and its plane and
  null in every identity field; and the recorded \<open>num_frames\<close> is the length of
  the frame list in all cases. The decoder does return when the pixel array has
  three dimensions and, in the first case, either is deep enough for the declared
  frames or the file has Rows and Columns.
\<close>

theorem decode_frame_count:
  "(decode_segmentation_dcm ds = Inr sd \<longrightarrow>
      num_frames sd = length (frames sd) \<and>
      (per_frame_well_formed ds \<longrightarrow> int (length (frames sd)) = declared_num_frames ds) \<and>
      (\<not> per_frame_well_formed ds \<longrightarrow>
         (\<exists>arr. pixel_array ds = Some arr \<and> length (frames sd) = shape0 arr \<and>
            (\<forall>i < shape0 arr. \<exists>m. plane arr i = Inr m \<and>
               frames sd ! i =
                 \<lparr>frame_index = i, segment_number = None, segment_name = None,
                  segment_color = None, image_position_patient = None,
                  ref_sop_uid = None, pixel_data = Some m\<rparr>)))) \<and>
   (pixel_array ds = Some (Array3D planes) \<and>
      (per_frame_well_formed ds \<longrightarrow>
         declared_num_frames ds \<le> int (length planes) \<or>
         (Rows ds \<noteq> None \<and> Columns ds \<noteq> None))
      \<longrightarrow> (\<exists>sd'. decode_segmentation_dcm ds = Inr sd'))"
proof (intro conjI impI)
  assume dec: "decode_segmentation_dcm ds = Inr sd"
  then show "num_frames sd = length (frames sd)"
    by (cases rule: decode_cases) (auto dest: fallback_result_frames(1))
next
  assume dec: "decode_segmentation_dcm ds = Inr sd" and wf: "per_frame_well_formed ds"
  from dec show "int (length (frames sd)) = declared_num_frames ds"
  proof (cases rule: decode_cases)
    case (well_formed per_frame frs)
    then show ?thesis by (auto simp: per_frame_well_formed_def)
  next
    case (fallback arr)
    with wf show ?thesis by simp
  qed
next
  assume dec: "decode_segmentation_dcm ds = Inr sd" and nwf: "\<not> per_frame_well_formed ds"
  from dec show "\<exists>arr. pixel_array ds = Some arr \<and> length (frames sd) = shape0 arr \<and>
            (\<forall>i < shape0 arr. \<exists>m. plane arr i = Inr m \<and>
               frames sd ! i =
                 \<lparr>frame_index = i, segment_number = None, segment_name = None,
                  segment_color = None, image_position_patient = None,
                  ref_sop_uid = None, pixel_data = Some m\<rparr>)"
  proof (cases rule: decode_cases)
    case (well_formed per_frame frs)
    with nwf show ?thesis by simp
  next
    case (fallback arr)
    from fallback_result_frames(2,3) [OF fallback(3)] fallback(2) show ?thesis by blast
  qed
next
  assume a: "pixel_array ds = Some (Array3D planes) \<and>
      (per_frame_well_formed ds \<longrightarrow>
         declared_num_frames ds \<le> int (length planes) \<or>
         (Rows ds \<noteq> None \<and> Columns ds \<noteq> None))"
  show "\<exists>sd'. decode_segmentation_dcm ds = Inr sd'"
  proof (cases "per_frame_well_formed ds")
    case True
    then obtain per_frame where
      pf: "PerFrameFunctionalGroupsSequence ds = Some per_frame" and
      len: "int (length per_frame) = declared_num_frames ds"
      by (auto simp: per_frame_well_formed_def split: option.splits)
    let ?sm = "case SegmentSequence ds of None \<Rightarrow> Map.empty
               | Some segs \<Rightarrow> build_segment_map segs Map.empty"
    from a True len
    have "0 + length per_frame \<le> length planes \<or> (Rows ds \<noteq> None \<and> Columns ds \<noteq> None)"
      by auto
    from decode_frames_returns [OF this] obtain frs where
      "decode_frames ?sm (Rows ds) (Columns ds) (Array3D planes) 0 per_frame = Inr frs"
      by blast
    with a pf len show ?thesis by (simp add: decode_segmentation_dcm_def)
  next
    case False
    from fallback_result_returns obtain sd' where
      "fallback_result (Array3D planes) = Inr sd'" by blast
    with a False show ?thesis
      by (auto simp: decode_segmentation_dcm_def per_frame_well_formed_def
               split: option.splits)
  qed
qed

lemma ex_decode: "decode_segmentation_dcm ex_seg_ds = Inr ex_decoded"
  by code_simp

lemma ex_decode_fallback: "decode_segmentation_dcm ex_seg_ds_short = Inr ex_fallback"
  by code_simp

text \<open>
  A file with one frame: the pixel array has two dimensions and the decoder raises
  on the first frame it reads.
\<close>

lemma ex_decode_single: "decode_segmentation_dcm ex_seg_ds_single = Inl IndexError"
  by code_simp

theorem decode_frame_count_witness:
  "decode_segmentation_dcm ex_seg_ds = Inr ex_decoded \<and>
   per_frame_well_formed ex_seg_ds \<and>
   int (length (frames ex_decoded)) = declared_num_frames ex_seg_ds \<and>
   num_frames ex_decoded = length (frames ex_decoded) \<and>
   decode_segmentation_dcm ex_seg_ds_short = Inr ex_fallback \<and>
   \<not> per_frame_well_formed ex_seg_ds_short \<and>
   (\<exists>arr. pixel_array ex_seg_ds_short = Some arr \<and> length (frames ex_fallback) = shape0 arr) \<and>
   pixel_array ex_seg_ds = Some (Array3D ex_planes) \<and>
   (\<exists>sd'. decode_segmentation_dcm ex_seg_ds = Inr sd')"
proof -
  have wf: "per_frame_well_formed ex_seg_ds"
    by (simp add: ex_seg_ds_def per_frame_well_formed_def declared_num_frames_def)
  have nwf: "\<not> per_frame_well_formed ex_seg_ds_short"
    by (simp add: ex_seg_ds_short_def ex_seg_ds_def per_frame_well_formed_def
                  declared_num_frames_def)
  have p: "pixel_array ex_seg_ds = Some (Array3D ex_planes)"
    by (simp add: ex_seg_ds_def)
  have deep: "declared_num_frames ex_seg_ds \<le> int (length ex_planes)"
    by (simp add: ex_seg_ds_def declared_num_frames_def ex_planes_def)
  from decode_frame_count [of ex_seg_ds ex_decoded ex_planes] ex_decode wf p deep
  have a: "int (length (frames ex_decoded)) = declared_num_frames ex_seg_ds"
    and b: "num_frames ex_decoded = length (frames ex_decoded)"
    and c: "\<exists>sd'. decode_segmentation_dcm ex_seg_ds = Inr sd'"
    by blast+
  from decode_frame_count [of ex_seg_ds_short ex_fallback ex_planes] ex_decode_fallback nwf
  have d: "\<exists>arr. pixel_array ex_seg_ds_short = Some arr \<and>
                length (frames ex_fallback) = shape0 arr"
    by blast
  from ex_decode wf a b ex_decode_fallback nwf d p c show ?thesis by blast
qed

section \<open>Proofs: resolving the reference series\<close>

lemma find_series_first:
  "find_series uid (pre @ (k, e) # post) = Some (k, e)"
  if "\<forall>(k', e') \<in> set pre. series_uid e' \<noteq> Some uid" and "series_uid e = Some uid"
  using that by (induction pre) auto

lemma find_series_none:
  "find_series uid catalog = None \<longleftrightarrow> (\<forall>(k, e) \<in> set catalog. series_uid e \<noteq> Some uid)"
  by (induction catalog) (auto split: if_splits)

lemma find_series_some:
  "find_series uid catalog = Some (k, e) \<Longrightarrow> (k, e) \<in> set catalog \<and> series_uid e = Some uid"
  by (induction catalog) (auto split: if_splits)

text \<open>
  Claim C9, as the code has it. For an object whose declared series identity is
  present and not empty, the resolver compares it with the catalog entries by
  equality of strings, in the order of the catalog: the first entry that matches is
  attached, and when none matches the record gets a null series reference. An object
  whose declared identity is absent or empty is passed over: its record is left as
  it was, and no series reference is written.
\<close>

theorem resolve_reference_series:
  "(ref_series_uid seg = Some uid \<and> uid \<noteq> [] \<longrightarrow>
      (\<forall>pre k e post.
          catalog = pre @ (k, e) # post \<and> series_uid e = Some uid \<and>
          (\<forall>(k', e') \<in> set pre. series_uid e' \<noteq> Some uid)
          \<longrightarrow> resolve_one catalog seg = seg\<lparr>series_info := Value e\<rparr>) \<and>
      ((\<forall>(k, e) \<in> set catalog. series_uid e \<noteq> Some uid)
          \<longrightarrow> resolve_one catalog seg = seg\<lparr>series_info := Null\<rparr>)) \<and>
   (ref_series_uid seg = None \<or> ref_series_uid seg = Some [] \<longrightarrow> resolve_one catalog seg = seg)"
proof (intro conjI impI allI)
  fix pre k e post
  assume a: "ref_series_uid seg = Some uid \<and> uid \<noteq> []"
    and b: "catalog = pre @ (k, e) # post \<and> series_uid e = Some uid \<and>
          (\<forall>(k', e') \<in> set pre. series_uid e' \<noteq> Some uid)"
  then have "find_series uid catalog = Some (k, e)"
    using find_series_first [of pre uid e k post] by simp
  with a show "resolve_one catalog seg = seg\<lparr>series_info := Value e\<rparr>"
    by (simp add: resolve_one_def)
next
  assume a: "ref_series_uid seg = Some uid \<and> uid \<noteq> []"
    and "\<forall>(k, e) \<in> set catalog. series_uid e \<noteq> Some uid"
  then have "find_series uid catalog = None" by (simp add: find_series_none)
  with a show "resolve_one catalog seg = seg\<lparr>series_info := Null\<rparr>"
    by (simp add: resolve_one_def)
next
  assume "ref_series_uid seg = None \<or> ref_series_uid seg = Some []"
  then show "resolve_one catalog seg = seg"
    by (auto simp: resolve_one_def)
qed

theorem resolve_reference_series_witness:
  "ref_series_uid ex_seg = Some ''1.2.3'' \<and>
   ex_catalog = [(''1'', ex_entry_other)] @ (''2'', ex_entry_first) # [(''3'', ex_entry_dup)] \<and>
   series_uid ex_entry_first = Some ''1.2.3'' \<and> series_uid ex_entry_dup = Some ''1.2.3'' \<and>
   resolve_one ex_catalog ex_seg = ex_seg\<lparr>series_info := Value ex_entry_first\<rparr> \<and>
   resolve_one [(''1'', ex_entry_other)] ex_seg = ex_seg\<lparr>series_info := Null\<rparr>"
proof -
  have a: "ref_series_uid ex_seg = Some ''1.2.3'' \<and> ''1.2.3'' \<noteq> []"
    by (simp add: ex_seg_def)
  have c: "ex_catalog = [(''1'', ex_entry_other)] @ (''2'', ex_entry_first) # [(''3'', ex_entry_dup)]"
    by (simp add: ex_catalog_def)
  have f: "series_uid ex_entry_first = Some ''1.2.3''" by (simp add: ex_entry_first_def)
  have d: "series_uid ex_entry_dup = Some ''1.2.3''" by (simp add: ex_entry_dup_def)
  have o: "\<forall>(k', e') \<in> set [(''1'', ex_entry_other)]. series_uid e' \<noteq> Some ''1.2.3''"
    by (simp add: ex_entry_other_def)
  from resolve_reference_series [of ex_seg "''1.2.3''" ex_catalog] a c f o
  have r1: "resolve_one ex_catalog ex_seg = ex_seg\<lparr>series_info := Value ex_entry_first\<rparr>"
    by blast
  from resolve_reference_series [of ex_seg "''1.2.3''" "[(''1'', ex_entry_other)]"] a o
  have r2: "resolve_one [(''1'', ex_entry_other)] ex_seg = ex_seg\<lparr>series_info := Null\<rparr>"
    by blast
  from a c f d r1 r2 show ?thesis by blast
qed

text \<open>
  Claim C9 as stated fails for an object without declared identity: no catalog entry
  matches it, and its record gets no series reference at all, rather than a null
  one.
\<close>

theorem resolve_reference_series_counterexample:
  "ref_series_uid cx_seg = None \<and> find_series [] ex_catalog = None \<and>
   series_info (resolve_one ex_catalog cx_seg) = Missing \<and>
   series_info (resolve_one ex_catalog cx_seg) \<noteq> Null"
  by (simp add: cx_seg_def resolve_one_def ex_catalog_def ex_entry_other_def
                ex_entry_first_def ex_entry_dup_def)


section \<open>Proofs: volumes\<close>












section \<open>Proofs: label volumes\<close>





lemma place_slices_length:
  "length (vplanes (fst (place_slices s infos (v, w)))) = length (vplanes v)"
  by (induction infos arbitrary: v w) auto




lemma group_of_append:
  "group_of (group_append k x g) nm = (if nm = k then group_of g nm @ [x] else group_of g nm)"
  by (induction k x g rule: group_append.induct) (auto simp: group_of_def)

lemma group_append_keys: "fst ` set (group_append k x g) = insert k (fst ` set g)"
  by (induction k x g rule: group_append.induct) auto

lemma group_append_distinct:
  "distinct (map fst g) \<Longrightarrow> distinct (map fst (group_append k x g))"
proof (induction k x g rule: group_append.induct)
  case (1 seg_name x)
  then show ?case by simp
next
  case (2 seg_name x k xs rest)
  then show ?case
    using group_append_keys [of seg_name x rest] by (auto simp: image_iff)
qed

lemma group_append_nonempty:
  "\<forall>(k', xs) \<in> set g. xs \<noteq> [] \<Longrightarrow> \<forall>(k', xs) \<in> set (group_append k x g). xs \<noteq> []"
  by (induction k x g rule: group_append.induct) auto

lemma placements_Cons:
  "placements idx (fr # frs) nm =
     (if segment_name fr = nm
      then (case idx (ref_sop_uid fr) of
              None \<Rightarrow> placements idx frs nm
            | Some i \<Rightarrow> (case pixel_data fr of
                          None \<Rightarrow> placements idx frs nm
                        | Some m \<Rightarrow> (i, m) # placements idx frs nm))
      else placements idx frs nm)"
  by (auto simp: placements_def List.map_filter_simps split: option.splits)

lemma group_frames_props:
  "distinct (map fst g) \<Longrightarrow> \<forall>(k, xs) \<in> set g. xs \<noteq> [] \<Longrightarrow>
     group_of (group_frames idx frs g) nm = group_of g nm @ placements idx frs nm \<and>
     distinct (map fst (group_frames idx frs g)) \<and>
     (\<forall>(k, xs) \<in> set (group_frames idx frs g). xs \<noteq> [])"
proof (induction frs arbitrary: g)
  case Nil
  then show ?case by (simp add: placements_def List.map_filter_simps)
next
  case (Cons fr frs)
  show ?case
  proof (cases "idx (ref_sop_uid fr)")
    case None
    with Cons show ?thesis by (simp add: placements_Cons)
  next
    case (Some i)
    show ?thesis
    proof (cases "pixel_data fr")
      case None
      with Some Cons show ?thesis by (simp add: placements_Cons)
    next
      case (Some m)
      let ?g = "group_append (segment_name fr) (i, m) g"
      from Cons.IH [of ?g] group_append_distinct [OF Cons.prems(1)]
        group_append_nonempty [OF Cons.prems(2)]
      have "group_of (group_frames idx frs ?g) nm = group_of ?g nm @ placements idx frs nm"
        and "distinct (map fst (group_frames idx frs ?g))"
        and "\<forall>(k, xs) \<in> set (group_frames idx frs ?g). xs \<noteq> []"
        by blast+
      with Some \<open>idx (ref_sop_uid fr) = Some i\<close> show ?thesis
        by (simp add: placements_Cons group_of_append)
    qed
  qed
qed

lemma group_frames_groups:
  "(nm, infos) \<in> set (group_frames idx frs []) \<longleftrightarrow>
     infos = placements idx frs nm \<and> infos \<noteq> []"
proof -
  from group_frames_props [of "[]" idx frs nm]
  have g: "group_of (group_frames idx frs []) nm = placements idx frs nm"
    and d: "distinct (map fst (group_frames idx frs []))"
    and ne: "\<forall>(k, xs) \<in> set (group_frames idx frs []). xs \<noteq> []"
    by (simp_all add: group_of_def)
  show ?thesis
  proof
    assume a: "(nm, infos) \<in> set (group_frames idx frs [])"
    with d have "map_of (group_frames idx frs []) nm = Some infos" by simp
    with g a ne show "infos = placements idx frs nm \<and> infos \<noteq> []"
      by (auto simp: group_of_def)
  next
    assume a: "infos = placements idx frs nm \<and> infos \<noteq> []"
    with g have "map_of (group_frames idx frs []) nm = Some infos"
      by (auto simp: group_of_def split: option.splits)
    then show "(nm, infos) \<in> set (group_frames idx frs [])" by (rule map_of_SomeD)
  qed
qed

lemma sop_index_sound:
  "sop_uid_to_index k xs m u = Some i \<Longrightarrow>
     m u = Some i \<or> (k \<le> i \<and> i < k + length xs \<and> xs ! (i - k) = u)"
proof (induction xs arbitrary: k m)
  case Nil
  then show ?case by simp
next
  case (Cons x xs)
  from Cons.prems have p: "sop_uid_to_index (Suc k) xs (m(x \<mapsto> k)) u = Some i" by simp
  have "(m(x \<mapsto> k)) u = Some i \<or> (Suc k \<le> i \<and> i < Suc k + length xs \<and> xs ! (i - Suc k) = u)"
    by (rule Cons.IH [OF p])
  then show ?case
  proof
    assume "(m(x \<mapsto> k)) u = Some i"
    then show ?thesis by (auto split: if_splits)
  next
    assume a: "Suc k \<le> i \<and> i < Suc k + length xs \<and> xs ! (i - Suc k) = u"
    then have "i - k = Suc (i - Suc k)" by arith
    with a show ?thesis by auto
  qed
qed

lemma sop_index_none:
  "sop_uid_to_index k xs m u = None \<longleftrightarrow> m u = None \<and> u \<notin> set xs"
  by (induction xs arbitrary: k m) auto

lemma placements_Nil: "placements idx [] nm = []"
  by (simp add: placements_def List.map_filter_simps)


lemma placements_origin:
  "(j, m) \<in> set (placements idx frs nm) \<Longrightarrow>
     \<exists>fr \<in> set frs. segment_name fr = nm \<and> idx (ref_sop_uid fr) = Some j \<and> pixel_data fr = Some m"
  by (induction frs)
     (auto simp: placements_Cons placements_Nil split: if_splits option.splits)

text \<open>
  A placement at slice index \<open>i\<close> comes from a frame whose slice identity equals the
  \<open>i\<close>-th identifier of the sorted series, and a frame whose identity is not among
  the identifiers is passed over. There is no other way into a mask.
\<close>

lemma slice_mapping_sound:
  assumes "(nm, infos) \<in> set (group_frames (sop_uid_to_index 0 sop_list Map.empty) frs [])"
    and "(i, m) \<in> set infos"
  shows "\<exists>fr \<in> set frs. segment_name fr = nm \<and> pixel_data fr = Some m \<and>
           i < length sop_list \<and> sop_list ! i = ref_sop_uid fr"
proof -
  from assms have "(i, m) \<in> set (placements (sop_uid_to_index 0 sop_list Map.empty) frs nm)"
    by (simp add: group_frames_groups)
  from placements_origin [OF this] obtain fr where
    fr: "fr \<in> set frs" "segment_name fr = nm" "pixel_data fr = Some m" and
    ix: "sop_uid_to_index 0 sop_list Map.empty (ref_sop_uid fr) = Some i" by blast
  from sop_index_sound [OF ix] have "i < length sop_list \<and> sop_list ! i = ref_sop_uid fr"
    by simp
  with fr show ?thesis by blast
qed

lemma unmatched_dropped:
  assumes "ref_sop_uid fr \<notin> set sop_list"
  shows "group_frames (sop_uid_to_index 0 sop_list Map.empty) (fr # frs) g
         = group_frames (sop_uid_to_index 0 sop_list Map.empty) frs g"
  using assms sop_index_none [of 0 sop_list Map.empty "ref_sop_uid fr"] by simp


lemma save_seg_nifti_policy:
  "save_seg_nifti overwrite shape3 (nii_name, mask_3d, aff, warned) (d, written, warnings)
     = (d', written', warnings') \<Longrightarrow>
   (if \<not> overwrite \<and> (\<exists>f. nifti_dir d nii_name = Some f \<and> nib_load_shape f = Inr shape3)
    then d' = d \<and> written' = written
    else nifti_dir d' nii_name = Some (LabelImage mask_3d aff) \<and> written' = written @ [nii_name])"
  by (auto simp: save_seg_nifti_def Let_def split: option.splits sum.splits if_splits)






lemma ex_step_2_4_3:
  "(case step_2_4_3_create_seg_nifti ex_seg_dict False ex_disk of
      Inl e \<Rightarrow> False
    | Inr (d', written, warnings) \<Rightarrow>
        written = [''2_ON_A__FN_S1.nii'', ''2_ON_B__FN_S1.nii'',
                   ''2_ON_A__FN_S2.nii'', ''2_ON_B__FN_S2.nii''] \<and>
        warnings = [(''2_ON_A__FN_S1.nii'', 1)] \<and>
        nifti_dir d' ''2_ON_A__FN_S1.nii''
          = Some (LabelImage \<lparr>vshape = (1, 2, 2),
                              vplanes = [NDArray 1 2 [1, 0], NDArray 1 2 [0, 0]]\<rparr> ex_aff))"
  by code_simp


section \<open>Proofs: the files of the two steps\<close>

text \<open>
  Claim C5: a frame without slice identity is dropped. The label step keeps a slice
  without SOPInstanceUID in its list as \<open>None\<close> and looks the frame's identity up
  without asking whether it is there, so \<open>None\<close> finds \<open>None\<close>. On the input
  below the second slice of the series has no identifier, and the frame, which has
  no slice identity, is placed at slice index 1 and written to a file; the merge
  script, for its part, passes such frames over.
\<close>

theorem slice_mapping_failing_input:
  "load_sop_uid_order cx_dcm = Inr ([Some ''u1'', None], (1, 2, 2), ex_aff) \<and>
   map ref_sop_uid cx_frames = [None] \<and>
   seg_outputs ''S'' ''2'' cx_frames ([Some ''u1'', None], (1, 2, 2), ex_aff)
     = [(''2_ON_None__FN_S.nii'',
         \<lparr>vshape = (1, 2, 2), vplanes = [NDArray 1 2 [0, 0], NDArray 1 2 [1, 1]]\<rparr>,
         ex_aff, [])]"
  by code_simp

text \<open>
  What the two steps do with a file that is already there when \<open>overwrite\<close> is
  off. The label step keeps it when it loads with the shape of the series and saves
  the mask otherwise. The intensity step keeps it whenever it loads, and creates the
  volume when the load raises.
\<close>

lemma step_2_4_2_body_policy:
  assumes "series_info seg = Value si" and "series_folder_path si = Some p" and "p \<noteq> []"
    and "series_dirs d p = Some dcm" and "series_number si \<notin> set processed"
    and "nifti_dir d (fmt (series_number si) @ ''.nii'') = Some f"
  shows "nib_load_shape f = Inr s \<Longrightarrow>
           step_2_4_2_body False seg (processed, d, written)
             = (series_number si # processed, d, written)"
    and "nib_load_shape f = Inl e \<Longrightarrow> load_dicom_series dcm = Inr (v, a, dims) \<Longrightarrow>
           step_2_4_2_body False seg (processed, d, written)
             = (series_number si # processed,
                d\<lparr>nifti_dir := (nifti_dir d)(fmt (series_number si) @ ''.nii''
                                      \<mapsto> IntensityImage v a)\<rparr>,
                written @ [fmt (series_number si) @ ''.nii''])"
  using assms by (simp_all add: step_2_4_2_body_def Let_def)

text \<open>
  Claim C1: a file that exists is kept only when it has the expected shape, and a
  shape mismatch forces regeneration, in both steps. The docstring of the intensity
  step says so too, and its comment says that the shape must match; the code reads
  the shape and never compares it. On the input below \<open>2.nii\<close> loads with shape
  (1, 1, 1) while the series has shape (1, 2, 2): the step saves nothing and the
  file stays as it was.
\<close>

theorem idempotent_skip_failing_input:
  "nifti_dir cx_disk ''2.nii'' = Some cx_old_nii \<and>
   nib_load_shape cx_old_nii = Inr (1, 1, 1) \<and>
   load_dicom_series ex_dcm = Inr (ex_vol, ex_aff, (1, 2, 2)) \<and>
   snd (step_2_4_2_create_original_nifti ex_seg_dict False cx_disk) = [] \<and>
   nifti_dir (fst (step_2_4_2_create_original_nifti ex_seg_dict False cx_disk)) ''2.nii''
     = Some cx_old_nii"
  by code_simp

lemma ex_rerun_skips:
  "(case step_2_4_3_create_seg_nifti ex_seg_dict False ex_disk of
      Inl e \<Rightarrow> False
    | Inr (d1, written1, warnings1) \<Rightarrow>
        (case step_2_4_3_create_seg_nifti ex_seg_dict False d1 of
           Inl e \<Rightarrow> False
         | Inr (d2, written2, warnings2) \<Rightarrow> written2 = []))"
  by code_simp

end
